theory Spec2Isabelle
  imports Main "HOL-Library.Stream" "HOL-Library.Sublist"
begin

section \<open>Data model\<close>

text \<open>
  The repository is one React component, \<^verbatim>\<open>App\<close>, in two variants that live in
  \<^verbatim>\<open>src/src/b.js\<close>: lines 1--225 use the MetaMask SDK hook \<^verbatim>\<open>useSDK\<close> (suffix
  \<open>_sdk\<close> below), lines 225--468 use the Web3Modal hooks (suffix \<open>_w3m\<close>). Both keep six
  \<^verbatim>\<open>useState\<close> cells and define the handlers \<^verbatim>\<open>switchToBNBChain\<close>,
  \<^verbatim>\<open>fetchBalances\<close> and \<^verbatim>\<open>handleTransfer\<close>; the SDK variant also defines
  \<^verbatim>\<open>connect\<close>.

  A thrown JavaScript value is read by the handlers through \<^verbatim>\<open>err.message\<close> and
  \<^verbatim>\<open>err.code\<close> only; \<open>code\<close> is \<open>None\<close> when \<^verbatim>\<open>err.code\<close> is absent or is not a number.
  A provider handle is an opaque object, told apart here by a number.
\<close>

type_synonym handle = nat

record js_error =
  message :: string
  code :: "int option"

text \<open>The parameter object of \<^verbatim>\<open>wallet_addEthereumChain\<close> (b.js lines 48--54, 285--291).\<close>

record currency =
  name :: string
  symbol :: string
  decimals :: nat

record chain_params =
  chainId :: string
  chainName :: string
  nativeCurrency :: currency
  rpcUrls :: "string list"
  blockExplorerUrls :: "string list"

datatype rpc_request =
    wallet_switchEthereumChain string
  | wallet_addEthereumChain chain_params

text \<open>
  Every call that leaves the component and may throw: the wallet connector, the
  provider's \<^verbatim>\<open>request\<close> entry point, and the ethers objects built on the provider
  (the \<^verbatim>\<open>BrowserProvider\<close> constructor, \<^verbatim>\<open>getSigner\<close>, \<^verbatim>\<open>getBalance\<close>, the three
  contract functions, \<^verbatim>\<open>parseUnits\<close> and \<^verbatim>\<open>tx.wait\<close>). \<^verbatim>\<open>new ethers.Contract\<close> with
  the fixed address and ABI only builds an object and is not recorded.
\<close>

datatype call =
    SdkConnect
  | ProviderRequest rpc_request
  | NewBrowserProvider "handle option"
  | GetSigner
  | GetBalance string
  | ContractDecimals
  | ContractBalanceOf string
  | ParseUnits string int
  | ContractTransfer string int
  | TxWait

datatype operation = Connect | SwitchToBNBChain | FetchBalances | HandleTransfer

text \<open>
  The outside world answers each call by throwing or by giving a value; numeric results
  (\<^verbatim>\<open>bigint\<close>) are integers, and the opaque results (provider, signer, transaction
  response, receipt) are given as some integer that the handlers never inspect. The
  answers still to come form a stream, so every awaited call settles.
\<close>

datatype reply = Threw js_error | Gave int

text \<open>The two pure formatting functions of the ethers library that the handlers use.\<close>

datatype lib_call = FormatEther int | FormatUnits int int

text \<open>
  The trace lists, in program order, what an execution did: which handler was entered,
  which state setter ran with which argument, which outside call was made and how it was
  answered, which value was formatted and with what result.
\<close>

datatype event =
    Enter operation
  | SetBnbBalance string
  | SetUsdtBalance string
  | SetLoading bool
  | SetError string
  | SetRecipient string
  | SetAmount string
  | Call call reply
  | Lib lib_call "js_error + string"

record machine =
  bnbBalance :: string
  usdtBalance :: string
  loading :: bool
  error :: string
  recipient :: string
  amount :: string
  trace :: "event list"
  replies :: "reply stream"

text \<open>
  \<^verbatim>\<open>ethers.formatEther\<close> and \<^verbatim>\<open>ethers.formatUnits\<close> are pure library functions; the
  handlers only pass their result on, so they are parameters of the model.
\<close>

record ethers_lib =
  formatEther :: "int \<Rightarrow> js_error + string"
  formatUnits :: "int \<Rightarrow> int \<Rightarrow> js_error + string"

text \<open>What the hooks hand to the component on a render.\<close>

record sdk_hooks =
  sdk :: "handle option"
  connected :: bool
  connecting :: bool
  provider :: "handle option"
  account :: "string option"

record w3m_hooks =
  address :: "string option"
  isConnected :: bool
  walletProvider :: "handle option"

section \<open>Control flow of an async handler\<close>

type_synonym 'a act = "machine \<Rightarrow> (js_error + 'a) \<times> machine"

definition ret :: "'a \<Rightarrow> 'a act" where
  "ret x = (\<lambda>m. (Inr x, m))"

definition throw :: "js_error \<Rightarrow> 'a act" where
  "throw e = (\<lambda>m. (Inl e, m))"

definition await :: "'a act \<Rightarrow> ('a \<Rightarrow> 'b act) \<Rightarrow> 'b act" where
  "await a f = (\<lambda>m. case a m of (Inl e, m') \<Rightarrow> (Inl e, m') | (Inr x, m') \<Rightarrow> f x m')"

definition seq :: "unit act \<Rightarrow> 'a act \<Rightarrow> 'a act" where
  "seq a b = await a (\<lambda>_. b)"

primrec block :: "unit act list \<Rightarrow> unit act" where
  "block [] = ret ()"
| "block (a # as) = seq a (block as)"

definition ignore :: "'a act \<Rightarrow> unit act" where
  "ignore a = await a (\<lambda>_. ret ())"

definition try_catch :: "'a act \<Rightarrow> (js_error \<Rightarrow> 'a act) \<Rightarrow> 'a act" where
  "try_catch body handler =
     (\<lambda>m. case body m of (Inl e, m') \<Rightarrow> handler e m' | (Inr x, m') \<Rightarrow> (Inr x, m'))"

definition with_finally :: "'a act \<Rightarrow> unit act \<Rightarrow> 'a act" where
  "with_finally body fin =
     (\<lambda>m. case body m of (r, m') \<Rightarrow>
        (case fin m' of (Inl e, m'') \<Rightarrow> (Inl e, m'') | (Inr _, m'') \<Rightarrow> (r, m'')))"

definition lib :: "lib_call \<Rightarrow> js_error + string \<Rightarrow> string act" where
  "lib f r = (\<lambda>m. (r, m\<lparr>trace := trace m @ [Lib f r]\<rparr>))"

definition enter :: "operation \<Rightarrow> unit act" where
  "enter f = (\<lambda>m. (Inr (), m\<lparr>trace := trace m @ [Enter f]\<rparr>))"

definition invoke :: "call \<Rightarrow> int act" where
  "invoke c = (\<lambda>m.
     let r = shd (replies m);
         m' = m\<lparr>trace := trace m @ [Call c r], replies := stl (replies m)\<rparr>
     in case r of Threw e \<Rightarrow> (Inl e, m') | Gave v \<Rightarrow> (Inr v, m'))"

subsection \<open>The state setters\<close>

definition setBnbBalance :: "string \<Rightarrow> unit act" where
  "setBnbBalance v = (\<lambda>m. (Inr (), m\<lparr>bnbBalance := v, trace := trace m @ [SetBnbBalance v]\<rparr>))"

definition setUsdtBalance :: "string \<Rightarrow> unit act" where
  "setUsdtBalance v = (\<lambda>m. (Inr (), m\<lparr>usdtBalance := v, trace := trace m @ [SetUsdtBalance v]\<rparr>))"

definition setLoading :: "bool \<Rightarrow> unit act" where
  "setLoading v = (\<lambda>m. (Inr (), m\<lparr>loading := v, trace := trace m @ [SetLoading v]\<rparr>))"

definition setError :: "string \<Rightarrow> unit act" where
  "setError v = (\<lambda>m. (Inr (), m\<lparr>error := v, trace := trace m @ [SetError v]\<rparr>))"

definition setRecipient :: "string \<Rightarrow> unit act" where
  "setRecipient v = (\<lambda>m. (Inr (), m\<lparr>recipient := v, trace := trace m @ [SetRecipient v]\<rparr>))"

definition setAmount :: "string \<Rightarrow> unit act" where
  "setAmount v = (\<lambda>m. (Inr (), m\<lparr>amount := v, trace := trace m @ [SetAmount v]\<rparr>))"

section \<open>The handlers, MetaMask SDK variant (b.js lines 14--127)\<close>

definition bsc_params :: chain_params where
  "bsc_params =
     \<lparr>chainId = ''0x38'',
      chainName = ''BNB Smart Chain'',
      nativeCurrency = \<lparr>name = ''BNB'', symbol = ''BNB'', decimals = 18\<rparr>,
      rpcUrls = [''https://bsc-dataseed.binance.org/''],
      blockExplorerUrls = [''https://bscscan.com/'']\<rparr>"

text \<open>\<^verbatim>\<open>await provider?.request(r)\<close>: no call at all when the handle is absent.\<close>

definition optional_request :: "handle option \<Rightarrow> rpc_request \<Rightarrow> unit act" where
  "optional_request p r =
     (case p of None \<Rightarrow> ret () | Some _ \<Rightarrow> ignore (invoke (ProviderRequest r)))"

definition switchToBNBChain_sdk :: "sdk_hooks \<Rightarrow> unit act" where
  "switchToBNBChain_sdk h =
     seq (enter SwitchToBNBChain)
       (try_catch
          (optional_request (provider h) (wallet_switchEthereumChain ''0x38''))
          (\<lambda>err.
             if code err = Some 4902 then
               try_catch
                 (optional_request (provider h) (wallet_addEthereumChain bsc_params))
                 (\<lambda>addError. setError ''Failed to add BSC network'')
             else setError ''Failed to switch network''))"

definition connect_sdk :: "sdk_hooks \<Rightarrow> unit act" where
  "connect_sdk h =
     seq (enter Connect)
       (with_finally
          (try_catch
             (block
                [setLoading True,
                 setError '''',
                 (case sdk h of None \<Rightarrow> ret () | Some _ \<Rightarrow> ignore (invoke SdkConnect)),
                 switchToBNBChain_sdk h])
             (\<lambda>err. setError (message err)))
          (setLoading False))"

text \<open>
  The reads and the two setters inside the \<^verbatim>\<open>try\<close> of \<^verbatim>\<open>fetchBalances\<close>; both variants
  run the same statements on the account string and the provider handle.
\<close>

definition readBalances :: "ethers_lib \<Rightarrow> string \<Rightarrow> handle option \<Rightarrow> unit act" where
  "readBalances L acct p =
     await (invoke (NewBrowserProvider p)) (\<lambda>ethersProvider.
     await (invoke (GetBalance acct)) (\<lambda>bnbBal.
     await (lib (FormatEther bnbBal) (formatEther L bnbBal)) (\<lambda>formatted.
     seq (setBnbBalance formatted)
    (await (invoke ContractDecimals) (\<lambda>decimals.
     await (invoke (ContractBalanceOf acct)) (\<lambda>usdtBal.
     await (lib (FormatUnits usdtBal decimals) (formatUnits L usdtBal decimals)) (\<lambda>formatted.
     setUsdtBalance formatted)))))))"

definition fetchBalances_sdk :: "ethers_lib \<Rightarrow> sdk_hooks \<Rightarrow> unit act" where
  "fetchBalances_sdk L h =
     seq (enter FetchBalances)
       (case account h of
          None \<Rightarrow> ret ()
        | Some acct \<Rightarrow>
            if acct = [] \<or> provider h = None then ret ()
            else try_catch (readBalances L acct (provider h))
                   (\<lambda>err. setError ''Failed to fetch balances''))"

text \<open>
  The \<^verbatim>\<open>try\<close> block of \<^verbatim>\<open>handleTransfer\<close>, the same in both variants up to the refresh
  it awaits. \<^verbatim>\<open>recipient\<close> and \<^verbatim>\<open>amount\<close> are the values of the render that created
  the handler.
\<close>

definition submitTransfer :: "handle option \<Rightarrow> string \<Rightarrow> string \<Rightarrow> unit act \<Rightarrow> unit act" where
  "submitTransfer p rcp amt refresh =
     block
       [setLoading True,
        setError '''',
        await (invoke (NewBrowserProvider p)) (\<lambda>ethersProvider.
        await (invoke GetSigner) (\<lambda>signer.
        await (invoke ContractDecimals) (\<lambda>decimals.
        await (invoke (ParseUnits amt decimals)) (\<lambda>transferAmount.
        await (invoke (ContractTransfer rcp transferAmount)) (\<lambda>tx.
        await (invoke TxWait) (\<lambda>receipt.
        block [refresh, setRecipient '''', setAmount '''']))))))]"

definition handleTransfer_sdk :: "ethers_lib \<Rightarrow> sdk_hooks \<Rightarrow> unit act" where
  "handleTransfer_sdk L h =
     seq (enter HandleTransfer)
       (\<lambda>m. if recipient m = [] \<or> amount m = [] then
              setError ''Please enter recipient address and amount'' m
            else
              with_finally
                (try_catch
                   (submitTransfer (provider h) (recipient m) (amount m) (fetchBalances_sdk L h))
                   (\<lambda>err. setError (message err)))
                (setLoading False) m)"

section \<open>The handlers, Web3Modal variant (b.js lines 258--369)\<close>

text \<open>
  \<^verbatim>\<open>walletProvider.request(r)\<close> without optional chaining: on an absent handle the
  property access throws a \<^verbatim>\<open>TypeError\<close>, which has no \<^verbatim>\<open>code\<close>.
\<close>

definition strict_request :: "handle option \<Rightarrow> rpc_request \<Rightarrow> unit act" where
  "strict_request p r =
     (case p of
        None \<Rightarrow> throw \<lparr>message = ''Cannot read properties of undefined (reading request)'',
                       code = None\<rparr>
      | Some _ \<Rightarrow> ignore (invoke (ProviderRequest r)))"

definition switchToBNBChain_w3m :: "w3m_hooks \<Rightarrow> unit act" where
  "switchToBNBChain_w3m h =
     seq (enter SwitchToBNBChain)
       (try_catch
          (if walletProvider h = None then ret ()
           else strict_request (walletProvider h) (wallet_switchEthereumChain ''0x38''))
          (\<lambda>err.
             if code err = Some 4902 then
               try_catch
                 (strict_request (walletProvider h) (wallet_addEthereumChain bsc_params))
                 (\<lambda>addError. setError ''Failed to add BSC network'')
             else setError ''Failed to switch network''))"

definition fetchBalances_w3m :: "ethers_lib \<Rightarrow> w3m_hooks \<Rightarrow> unit act" where
  "fetchBalances_w3m L h =
     seq (enter FetchBalances)
       (case address h of
          None \<Rightarrow> ret ()
        | Some addr \<Rightarrow>
            if \<not> isConnected h \<or> walletProvider h = None \<or> addr = [] then ret ()
            else try_catch (readBalances L addr (walletProvider h))
                   (\<lambda>err. setError ''Failed to fetch balances''))"

definition handleTransfer_w3m :: "ethers_lib \<Rightarrow> w3m_hooks \<Rightarrow> unit act" where
  "handleTransfer_w3m L h =
     seq (enter HandleTransfer)
       (\<lambda>m. if recipient m = [] \<or> amount m = [] then
              setError ''Please enter recipient address and amount'' m
            else if walletProvider h = None then
              setError ''Please connect your wallet'' m
            else
              with_finally
                (try_catch
                   (submitTransfer (walletProvider h) (recipient m) (amount m)
                      (fetchBalances_w3m L h))
                   (\<lambda>err. setError (message err)))
                (setLoading False) m)"

section \<open>The component in either variant\<close>

datatype app = SdkApp sdk_hooks | W3mApp w3m_hooks

fun switchToBNBChain :: "app \<Rightarrow> unit act" where
  "switchToBNBChain (SdkApp h) = switchToBNBChain_sdk h"
| "switchToBNBChain (W3mApp h) = switchToBNBChain_w3m h"

fun fetchBalances :: "ethers_lib \<Rightarrow> app \<Rightarrow> unit act" where
  "fetchBalances L (SdkApp h) = fetchBalances_sdk L h"
| "fetchBalances L (W3mApp h) = fetchBalances_w3m L h"

fun handleTransfer :: "ethers_lib \<Rightarrow> app \<Rightarrow> unit act" where
  "handleTransfer L (SdkApp h) = handleTransfer_sdk L h"
| "handleTransfer L (W3mApp h) = handleTransfer_w3m L h"

text \<open>
  The submit button (b.js lines 204--210 and 445--451) is rendered in the connected
  branch only, carries \<^verbatim>\<open>onClick={handleTransfer}\<close> and \<^verbatim>\<open>disabled={loading}\<close>; a
  disabled button dispatches no click.
\<close>

fun app_connected :: "app \<Rightarrow> bool" where
  "app_connected (SdkApp h) = connected h"
| "app_connected (W3mApp h) = isConnected h"

definition transferButton_click :: "ethers_lib \<Rightarrow> app \<Rightarrow> unit act" where
  "transferButton_click L v =
     (\<lambda>m. if app_connected v \<and> \<not> loading m then handleTransfer L v m else ret () m)"

section \<open>Reading an execution\<close>

text \<open>
  The machine an action leaves behind, and the events it added to the trace. The
  predicates pick out of a trace the outside calls, the steps that threw, the three reads
  of chain state, the descriptors of the registration requests and the native balances
  that were read.
\<close>

definition after :: "'a act \<Rightarrow> machine \<Rightarrow> machine" where
  "after a m = snd (a m)"

definition events_of :: "'a act \<Rightarrow> machine \<Rightarrow> event list" where
  "events_of a m = drop (length (trace m)) (trace (after a m))"

fun is_call :: "event \<Rightarrow> bool" where
  "is_call (Call c r) = True"
| "is_call e = False"

fun failed :: "event \<Rightarrow> bool" where
  "failed (Call c (Threw e)) = True"
| "failed (Lib f (Inl e)) = True"
| "failed e = False"

fun chain_read :: "call \<Rightarrow> bool" where
  "chain_read (GetBalance a) = True"
| "chain_read ContractDecimals = True"
| "chain_read (ContractBalanceOf a) = True"
| "chain_read c = False"

fun add_requests :: "event list \<Rightarrow> chain_params list" where
  "add_requests [] = []"
| "add_requests (Call (ProviderRequest (wallet_addEthereumChain p)) r # evs) = p # add_requests evs"
| "add_requests (e # evs) = add_requests evs"

text \<open>
  The events a run of \<^verbatim>\<open>fetchBalances\<close> can add after its entry, and the events one
  particular run did add after its entry.
\<close>

fun refresh_event :: "event \<Rightarrow> bool" where
  "refresh_event (Call (NewBrowserProvider p) r) = True"
| "refresh_event (Call (GetBalance a) r) = True"
| "refresh_event (Call ContractDecimals r) = True"
| "refresh_event (Call (ContractBalanceOf a) r) = True"
| "refresh_event (Lib f r) = True"
| "refresh_event (SetBnbBalance s) = True"
| "refresh_event (SetUsdtBalance s) = True"
| "refresh_event (SetError s) = (s = ''Failed to fetch balances'')"
| "refresh_event e = False"

definition refresh_tail :: "ethers_lib \<Rightarrow> app \<Rightarrow> machine \<Rightarrow> event list" where
  "refresh_tail L v m = tl (events_of (fetchBalances L v) m)"

fun native_values :: "event list \<Rightarrow> int list" where
  "native_values [] = []"
| "native_values (Call (GetBalance a) (Gave n) # evs) = n # native_values evs"
| "native_values (e # evs) = native_values evs"

fun native_read :: "call \<Rightarrow> bool" where
  "native_read (GetBalance a) = True"
| "native_read c = False"

section \<open>Inputs and intermediate states of an execution\<close>

text \<open>
  The provider handle a variant works with: \<^verbatim>\<open>provider\<close> of \<^verbatim>\<open>useSDK()\<close> (b.js line 15),
  \<^verbatim>\<open>walletProvider\<close> of \<^verbatim>\<open>useWeb3ModalProvider()\<close> (b.js line 262).
\<close>

fun app_provider :: "app \<Rightarrow> handle option" where
  "app_provider (SdkApp h) = provider h"
| "app_provider (W3mApp h) = walletProvider h"

text \<open>
  The tests \<^verbatim>\<open>handleTransfer\<close> makes before its \<^verbatim>\<open>try\<close> block:
  \<^verbatim>\<open>if (!recipient || !amount)\<close> in both variants (b.js lines 92, 329) and
  \<^verbatim>\<open>if (!walletProvider)\<close> in the Web3Modal variant only (line 334). The test at the head
  of \<^verbatim>\<open>fetchBalances\<close>: \<^verbatim>\<open>if (!account || !provider) return\<close> (line 67),
  \<^verbatim>\<open>if (!isConnected || !walletProvider || !address) return\<close> (line 304).
\<close>

fun guards_pass :: "app \<Rightarrow> machine \<Rightarrow> bool" where
  "guards_pass (SdkApp h) m = (recipient m \<noteq> [] \<and> amount m \<noteq> [])"
| "guards_pass (W3mApp h) m = (recipient m \<noteq> [] \<and> amount m \<noteq> [] \<and> walletProvider h \<noteq> None)"

fun fetch_guard :: "app \<Rightarrow> bool" where
  "fetch_guard (SdkApp h) =
     (case account h of None \<Rightarrow> False | Some acct \<Rightarrow> acct \<noteq> [] \<and> provider h \<noteq> None)"
| "fetch_guard (W3mApp h) =
     (case address h of None \<Rightarrow> False
      | Some addr \<Rightarrow> isConnected h \<and> walletProvider h \<noteq> None \<and> addr \<noteq> [])"

text \<open>
  Answers under which one of the steps of \<^verbatim>\<open>readBalances\<close> throws. The steps consume the
  answers in order: provider object, native balance, token decimals, token balance; the
  two formatting calls are library calls and consume none.
\<close>

definition reads_fail :: "ethers_lib \<Rightarrow> reply stream \<Rightarrow> bool" where
  "reads_fail L rs =
     (case shd rs of
        Threw e \<Rightarrow> True
      | Gave ethersProvider \<Rightarrow>
          (case shd (stl rs) of
             Threw e \<Rightarrow> True
           | Gave bnbBal \<Rightarrow>
               (case formatEther L bnbBal of
                  Inl e \<Rightarrow> True
                | Inr formatted \<Rightarrow>
                    (case shd (stl (stl rs)) of
                       Threw e \<Rightarrow> True
                     | Gave tokenDecimals \<Rightarrow>
                         (case shd (stl (stl (stl rs))) of
                            Threw e \<Rightarrow> True
                          | Gave usdtBal \<Rightarrow>
                              (case formatUnits L usdtBal tokenDecimals of
                                 Inl e \<Rightarrow> True
                               | Inr formatted \<Rightarrow> False))))))"

text \<open>
  The machine while a handler is suspended. Every step of a handler adds one event to the
  trace; \<^verbatim>\<open>render_event\<close> is the change of the machine that goes with the event (a setter
  writes its cell, an outside call consumes one answer), and \<^verbatim>\<open>rendered evs m\<close> is the machine
  once the events \<^verbatim>\<open>evs\<close> have happened to \<^verbatim>\<open>m\<close>. When the handler is suspended at an awaited
  call, the component has been rendered with the cells as the events before the call left
  them.
\<close>

fun render_event :: "event \<Rightarrow> machine \<Rightarrow> machine" where
  "render_event (SetBnbBalance s) m = m\<lparr>bnbBalance := s, trace := trace m @ [SetBnbBalance s]\<rparr>"
| "render_event (SetUsdtBalance s) m = m\<lparr>usdtBalance := s, trace := trace m @ [SetUsdtBalance s]\<rparr>"
| "render_event (SetLoading b) m = m\<lparr>loading := b, trace := trace m @ [SetLoading b]\<rparr>"
| "render_event (SetError s) m = m\<lparr>error := s, trace := trace m @ [SetError s]\<rparr>"
| "render_event (SetRecipient s) m = m\<lparr>recipient := s, trace := trace m @ [SetRecipient s]\<rparr>"
| "render_event (SetAmount s) m = m\<lparr>amount := s, trace := trace m @ [SetAmount s]\<rparr>"
| "render_event (Call c r) m = m\<lparr>trace := trace m @ [Call c r], replies := stl (replies m)\<rparr>"
| "render_event (Enter f) m = m\<lparr>trace := trace m @ [Enter f]\<rparr>"
| "render_event (Lib f r) m = m\<lparr>trace := trace m @ [Lib f r]\<rparr>"

definition rendered :: "event list \<Rightarrow> machine \<Rightarrow> machine" where
  "rendered evs m = fold render_event evs m"

text \<open>
  An action replays when the machine it leaves is the one its events render. In a list of
  events, every outside call happens while the loading flag, \<^verbatim>\<open>b\<close> at the start, is true.
\<close>

definition replays :: "'a act \<Rightarrow> bool" where
  "replays a =
     (\<forall>m. \<exists>evs. trace (after a m) = trace m @ evs \<and> after a m = fold render_event evs m)"

fun calls_while_loading :: "bool \<Rightarrow> event list \<Rightarrow> bool" where
  "calls_while_loading b [] = True"
| "calls_while_loading b (SetLoading b' # evs) = calls_while_loading b' evs"
| "calls_while_loading b (Call c r # evs) = (b \<and> calls_while_loading b evs)"
| "calls_while_loading b (e # evs) = calls_while_loading b evs"

section \<open>The ethers formatting functions\<close>

text \<open>
  Modelled from the spec: \<^verbatim>\<open>ethers.formatEther\<close> and \<^verbatim>\<open>ethers.formatUnits\<close> belong to the
  ethers library, which is not under \<^verbatim>\<open>src/\<close>. The spec has \<^verbatim>\<open>fetchBalances\<close> format both
  balances as human-readable decimal strings, the native one with 18-decimal fixed scaling
  and the token one with its on-chain decimals value. The definitions follow what the
  library's version 6 does: \<^verbatim>\<open>formatUnits(value, decimals)\<close> writes the integer with
  \<^verbatim>\<open>decimals\<close> fraction digits and removes trailing zeros down to one, it refuses more
  than 80 decimals and values outside the signed 512-bit range, and
  \<^verbatim>\<open>formatEther(wei)\<close> is \<^verbatim>\<open>formatUnits(wei, 18)\<close>. The component never reads the text of
  these library errors. Every theorem that is not about a sample execution holds for
  any pair of formatting functions.
\<close>

definition digit_char :: "nat \<Rightarrow> char" where
  "digit_char d = ''0123456789'' ! d"

fun decimal :: "nat \<Rightarrow> string" where
  "decimal n = (if n < 10 then [digit_char n] else decimal (n div 10) @ [digit_char (n mod 10)])"

declare decimal.simps [simp del]

function pad_zeros :: "string \<Rightarrow> int \<Rightarrow> string" where
  "pad_zeros str d = (if int (length str) \<le> d then pad_zeros (''0000'' @ str) d else str)"
  by pat_completeness auto
termination
  by (relation "measure (\<lambda>(str, d). nat (d + 1 - int (length str)))") auto

declare pad_zeros.simps [simp del]

fun trim_zeros :: "string \<Rightarrow> string" where
  "trim_zeros [] = []"
| "trim_zeros [c] = (if c = CHR ''0'' then [] else [c])"
| "trim_zeros (c # d # s) =
     (if c = CHR ''0'' \<and> d \<noteq> CHR ''.'' then trim_zeros (d # s) else c # d # s)"

definition fixed_toString :: "int \<Rightarrow> int \<Rightarrow> string" where
  "fixed_toString val d =
     (let negative = (if val < 0 then ''-'' else []);
          digits = decimal (nat \<bar>val\<bar>)
      in if d = 0 then negative @ digits
         else
           let padded = pad_zeros digits d;
               index = nat (int (length padded) - d);
               pointed = take index padded @ ''.'' @ drop index padded
           in negative @ rev (trim_zeros (rev (trim_zeros pointed))))"

definition ethers_formatUnits :: "int \<Rightarrow> int \<Rightarrow> js_error + string" where
  "ethers_formatUnits val d =
     (if 80 < d then
        Inl \<lparr>message = ''invalid FixedNumber decimals (too large)'', code = None\<rparr>
      else if val < - (2 ^ 511) \<or> 2 ^ 511 \<le> val then
        Inl \<lparr>message = ''overflow'', code = None\<rparr>
      else Inr (fixed_toString val d))"

definition ethers_v6 :: ethers_lib where
  "ethers_v6 =
     \<lparr>formatEther = (\<lambda>wei. ethers_formatUnits wei 18), formatUnits = ethers_formatUnits\<rparr>"

section \<open>The balance cards\<close>







definition pointed :: "nat \<Rightarrow> string \<Rightarrow> string" where
  "pointed f m =
     (if f = 0 then m
      else let padded = replicate (Suc f - length m) (CHR ''0'') @ m
           in take (length padded - f) padded @ ''.'' @ drop (length padded - f) padded)"




section \<open>Sample renders\<close>

text \<open>The six \<^verbatim>\<open>useState\<close> cells at their initial values (b.js lines 16--21, 264--269).\<close>

definition initial :: "reply stream \<Rightarrow> machine" where
  "initial rs =
     \<lparr>bnbBalance = ''0'', usdtBalance = ''0'', loading = False, error = [],
      recipient = [], amount = [], trace = [], replies = rs\<rparr>"

text \<open>The form filled in for one USDT to some recipient.\<close>

definition filled :: "reply stream \<Rightarrow> machine" where
  "filled rs =
     (initial rs)\<lparr>recipient := ''0x000000000000000000000000000000000000dEaD'', amount := ''1''\<rparr>"

text \<open>A connected session in each variant, and errors a wallet or a node may answer with.\<close>

definition sdk_session :: sdk_hooks where
  "sdk_session =
     \<lparr>sdk = Some 0, connected = True, connecting = False, provider = Some 1,
      account = Some ''0x00000000000000000000000000000000000000A1''\<rparr>"

definition w3m_session :: w3m_hooks where
  "w3m_session =
     \<lparr>address = Some ''0x00000000000000000000000000000000000000A1'', isConnected = True,
      walletProvider = Some 1\<rparr>"

definition network_error :: js_error where
  "network_error = \<lparr>message = ''could not detect network'', code = None\<rparr>"

definition unknown_chain :: js_error where
  "unknown_chain = \<lparr>message = ''Unrecognized chain ID 0x38'', code = Some 4902\<rparr>"

definition user_rejected :: js_error where
  "user_rejected = \<lparr>message = ''user rejected action'', code = Some 4001\<rparr>"

definition invalid_provider :: js_error where
  "invalid_provider = \<lparr>message = ''invalid EIP-1193 provider'', code = None\<rparr>"

text \<open>A render whose error slot still holds the message of an earlier failed switch.\<close>

definition stale_error :: "reply stream \<Rightarrow> machine" where
  "stale_error rs = (initial rs)\<lparr>error := ''Failed to switch network''\<rparr>"

text \<open>
  Answers of the outside world, in the order in which the handlers ask. A balance fetch
  asks for the provider object, the native balance, the token decimals and the token
  balance; a transfer asks for the provider object, the signer, the token decimals, the
  parsed amount, the transfer and its confirmation, and then fetches the balances.
\<close>

definition healthy_reads :: "reply stream" where
  "healthy_reads =
     Gave 0 ## Gave 500000000000000000 ## Gave 18 ## Gave 25000000000000000000 ## sconst (Gave 0)"


definition decimals_unreachable :: "reply stream" where
  "decimals_unreachable =
     Gave 0 ## Gave 1000000000000000000 ## Threw network_error ## sconst (Gave 0)"

definition transfer_confirmed :: "reply stream \<Rightarrow> reply stream" where
  "transfer_confirmed rs =
     Gave 0 ## Gave 0 ## Gave 18 ## Gave 1000000000000000000 ## Gave 0 ## Gave 0 ## rs"

definition transfer_rejected :: "reply stream" where
  "transfer_rejected =
     Gave 0 ## Gave 0 ## Gave 18 ## Gave 1000000000000000000 ## Threw user_rejected ## sconst (Gave 0)"

section \<open>Facts about the balance refresh\<close>

text \<open>
  \<^verbatim>\<open>fetchBalances\<close> always returns normally, leaves the form and the loading flag alone,
  adds only events of a refresh, and ends with \<^verbatim>\<open>Failed to fetch balances\<close> in the error
  slot exactly when one of its steps threw.
\<close>

lemmas act_defs = ret_def throw_def await_def seq_def ignore_def try_catch_def with_finally_def
  lib_def enter_def invoke_def setBnbBalance_def setUsdtBalance_def setLoading_def setError_def
  setRecipient_def setAmount_def

lemma readBalances_frame:
  assumes "readBalances L acct p m = (r, m')"
  shows "recipient m' = recipient m" and "amount m' = amount m"
    and "loading m' = loading m" and "error m' = error m"
  using assms unfolding readBalances_def act_defs
  by (auto simp: Let_def split: reply.splits sum.splits prod.splits)

lemma readBalances_events:
  assumes "readBalances L acct p m = (r, m')"
  shows "\<exists>evs. trace m' = trace m @ evs
       \<and> (\<forall>ev \<in> set evs. refresh_event ev \<and> (\<forall>s. ev \<noteq> SetError s))
       \<and> ((\<exists>ev \<in> set evs. failed ev) = (\<exists>e. r = Inl e))"
  using assms unfolding readBalances_def act_defs
  by (auto simp: Let_def split: reply.splits sum.splits prod.splits)

lemma fetchBalances_run:
  assumes "fetchBalances L v m = (r, m')"
  shows "r = Inr () \<and> recipient m' = recipient m \<and> amount m' = amount m \<and> loading m' = loading m
       \<and> (\<exists>evs. trace m' = trace m @ Enter FetchBalances # evs \<and> (\<forall>ev \<in> set evs. refresh_event ev)
            \<and> error m' = (if \<exists>ev \<in> set evs. failed ev then ''Failed to fetch balances'' else error m))"
proof -
  let ?m0 = "m\<lparr>trace := trace m @ [Enter FetchBalances]\<rparr>"
  have guard: "(r, m') = (Inr (), ?m0) \<or>
     (\<exists>acct p. try_catch (readBalances L acct p) (\<lambda>err. setError ''Failed to fetch balances'') ?m0 = (r, m'))"
    using assms
    by (cases v) (auto simp: fetchBalances_sdk_def fetchBalances_w3m_def seq_def await_def enter_def ret_def
         split: option.splits if_splits)
  then show ?thesis
  proof
    assume "(r, m') = (Inr (), ?m0)"
    then show ?thesis by auto
  next
    assume "\<exists>acct p. try_catch (readBalances L acct p) (\<lambda>err. setError ''Failed to fetch balances'') ?m0 = (r, m')"
    then obtain acct p where tc: "try_catch (readBalances L acct p) (\<lambda>err. setError ''Failed to fetch balances'') ?m0 = (r, m')"
      by blast
    obtain r1 m1 where rb: "readBalances L acct p ?m0 = (r1, m1)" by (cases "readBalances L acct p ?m0")
    from readBalances_events[OF rb] obtain evs where tr0: "trace m1 = trace ?m0 @ evs"
      and ev: "\<forall>ev \<in> set evs. refresh_event ev \<and> (\<forall>s. ev \<noteq> SetError s)"
      and fl: "(\<exists>ev \<in> set evs. failed ev) = (\<exists>e. r1 = Inl e)"
      by (elim exE conjE)
    note fr0 = readBalances_frame[OF rb]
    from tr0 have tr: "trace m1 = trace m @ Enter FetchBalances # evs" by simp
    from fr0 have fr: "recipient m1 = recipient m" "amount m1 = amount m"
        "loading m1 = loading m" "error m1 = error m" by simp_all
    show ?thesis
    proof (cases r1)
      case (Inl e)
      with tc rb have res: "r = Inr ()"
        "m' = m1\<lparr>error := ''Failed to fetch balances'', trace := trace m1 @ [SetError ''Failed to fetch balances'']\<rparr>"
        by (simp_all add: try_catch_def setError_def)
      from fl Inl obtain ev where "ev \<in> set evs" "failed ev" by blast
      then have "\<exists>ev \<in> set (evs @ [SetError ''Failed to fetch balances'']). failed ev" by auto
      moreover have "\<forall>ev \<in> set (evs @ [SetError ''Failed to fetch balances'']). refresh_event ev"
        using ev by auto
      moreover have "trace m' = trace m @ Enter FetchBalances # (evs @ [SetError ''Failed to fetch balances''])"
        using res tr by simp
      ultimately have "\<exists>evs. trace m' = trace m @ Enter FetchBalances # evs \<and> (\<forall>ev \<in> set evs. refresh_event ev)
            \<and> error m' = (if \<exists>ev \<in> set evs. failed ev then ''Failed to fetch balances'' else error m)"
        using res by (intro exI[of _ "evs @ [SetError ''Failed to fetch balances'']"]) simp
      with res fr show ?thesis by simp
    next
      case (Inr u)
      with tc rb have res: "r = Inr ()" "m' = m1" by (simp_all add: try_catch_def)
      from fl Inr have nf: "\<not> (\<exists>ev \<in> set evs. failed ev)" by simp
      have "\<exists>evs. trace m' = trace m @ Enter FetchBalances # evs \<and> (\<forall>ev \<in> set evs. refresh_event ev)
            \<and> error m' = (if \<exists>ev \<in> set evs. failed ev then ''Failed to fetch balances'' else error m)"
        using res tr ev nf fr by (intro exI[of _ evs]) simp
      with res fr show ?thesis by simp
    qed
  qed
qed

lemma fetchBalances_eq: "fetchBalances L v m = (Inr (), after (fetchBalances L v) m)"
  using fetchBalances_run[of L v m "fst (fetchBalances L v m)" "snd (fetchBalances L v m)"]
  by (simp add: after_def prod_eq_iff)

lemma fetchBalances_after:
  shows "recipient (after (fetchBalances L v) m) = recipient m"
    and "amount (after (fetchBalances L v) m) = amount m"
    and "loading (after (fetchBalances L v) m) = loading m"
    and "trace (after (fetchBalances L v) m) = trace m @ Enter FetchBalances # refresh_tail L v m"
    and "\<forall>ev \<in> set (refresh_tail L v m). refresh_event ev"
    and "error (after (fetchBalances L v) m) =
           (if \<exists>ev \<in> set (refresh_tail L v m). failed ev then ''Failed to fetch balances'' else error m)"
proof -
  obtain r m' where run: "fetchBalances L v m = (r, m')" by (cases "fetchBalances L v m")
  then have af: "after (fetchBalances L v) m = m'" by (simp add: after_def)
  note facts = fetchBalances_run[OF run]
  from facts obtain evs where tr: "trace m' = trace m @ Enter FetchBalances # evs"
    and ev: "\<forall>ev \<in> set evs. refresh_event ev"
    and er: "error m' = (if \<exists>ev \<in> set evs. failed ev then ''Failed to fetch balances'' else error m)"
    by (elim exE conjE)
  from tr af have tl: "refresh_tail L v m = evs" by (simp add: refresh_tail_def events_of_def)
  from facts af show "recipient (after (fetchBalances L v) m) = recipient m"
    and "amount (after (fetchBalances L v) m) = amount m"
    and "loading (after (fetchBalances L v) m) = loading m" by simp_all
  from tr af tl show "trace (after (fetchBalances L v) m) = trace m @ Enter FetchBalances # refresh_tail L v m"
    by simp
  from ev tl show "\<forall>ev \<in> set (refresh_tail L v m). refresh_event ev" by simp
  from er af tl show "error (after (fetchBalances L v) m) =
           (if \<exists>ev \<in> set (refresh_tail L v m). failed ev then ''Failed to fetch balances'' else error m)"
    by simp
qed

lemma fetch_variants:
  "fetchBalances_sdk L h = fetchBalances L (SdkApp h)" "fetchBalances_w3m L h' = fetchBalances L (W3mApp h')"
  by simp_all

declare fetchBalances.simps [simp del] handleTransfer.simps [simp del] switchToBNBChain.simps [simp del]

lemma refresh_tailD: "ev \<in> set (refresh_tail L v m) \<Longrightarrow> refresh_event ev"
  using fetchBalances_after(5) by blast

lemma refresh_tail_excludes:
  "Enter f \<notin> set (refresh_tail L v m)"
  "SetLoading b \<notin> set (refresh_tail L v m)"
  "SetRecipient s \<notin> set (refresh_tail L v m)"
  "SetAmount s \<notin> set (refresh_tail L v m)"
  "SetError [] \<notin> set (refresh_tail L v m)"
  "Call SdkConnect rp \<notin> set (refresh_tail L v m)"
  "Call (ProviderRequest rq) rp \<notin> set (refresh_tail L v m)"
  "Call GetSigner rp \<notin> set (refresh_tail L v m)"
  "Call (ParseUnits s d) rp \<notin> set (refresh_tail L v m)"
  "Call (ContractTransfer s d) rp \<notin> set (refresh_tail L v m)"
  "Call TxWait rp \<notin> set (refresh_tail L v m)"
  using refresh_tailD[of _ L v m] by fastforce+

lemma fetch_events:
  "events_of (fetchBalances L v) m = Enter FetchBalances # refresh_tail L v m"
  by (simp add: events_of_def fetchBalances_after(4))

lemma fetch_overwrite:
  assumes "ev \<in> set (events_of (fetchBalances L v) m)" and "failed ev"
  shows "error (after (fetchBalances L v) m) = ''Failed to fetch balances''"
proof -
  from assms have "ev \<in> set (refresh_tail L v m)" by (auto simp: fetch_events)
  with assms(2) show ?thesis by (auto simp: fetchBalances_after(6))
qed

section \<open>Facts about the other handlers\<close>

text \<open>
  Each lemma takes one execution, given by its result, and reads the state it leaves
  behind off the events it added.
\<close>

lemmas transfer_simps = handleTransfer.simps handleTransfer_sdk_def handleTransfer_w3m_def submitTransfer_def fetch_variants
       fetchBalances_eq fetchBalances_after(1-4,6) act_defs Let_def

lemma run_of: "a m = (fst (a m), after a m)"
  by (simp add: after_def)

lemma handleTransfer_result: "fst (handleTransfer L v m) = Inr ()"
  by (cases v) (simp_all add: transfer_simps split: reply.splits)

lemma transfer_success_run:
  assumes run: "handleTransfer L v m = (r, m')"
    and "Call (ContractTransfer rcp a) (Gave tx) \<in> set (drop (length (trace m)) (trace m'))"
    and "Call TxWait (Gave rc) \<in> set (drop (length (trace m)) (trace m'))"
  shows "recipient m' = [] \<and> amount m' = [] \<and> \<not> loading m'
     \<and> length (filter (\<lambda>ev. ev = Enter FetchBalances) (drop (length (trace m)) (trace m'))) = 1
     \<and> (\<forall>ev \<in> set (drop (length (trace m)) (trace m')). failed ev \<longrightarrow> error m' = ''Failed to fetch balances'')"
  using assms
  apply (cases v)
   apply (simp_all add: transfer_simps split: reply.splits if_splits)
   apply (auto simp: filter_empty_conv refresh_tail_excludes fetchBalances_after(1-4,6))
  done

lemma transfer_failure_run:
  assumes run: "handleTransfer L v m = (r, m')"
    and fail: "Call (ContractTransfer rcp a) (Threw e) \<in> set (drop (length (trace m)) (trace m'))
         \<or> Call TxWait (Threw e) \<in> set (drop (length (trace m)) (trace m'))"
  shows "recipient m' = recipient m \<and> amount m' = amount m \<and> error m' = message e"
  using assms
  apply (cases v)
   apply (simp_all add: transfer_simps split: reply.splits if_splits)
   apply (auto simp: refresh_tail_excludes)
  done

lemma fetch_failed_read_run:
  assumes run: "fetchBalances L v m = (r, m')"
    and fail: "Call c (Threw e) \<in> set (drop (length (trace m)) (trace m'))"
    and rd: "chain_read c"
  shows "error m' = ''Failed to fetch balances'' \<and> usdtBalance m' = usdtBalance m
       \<and> (if native_read c then bnbBalance m' = bnbBalance m
           else map (formatEther L) (native_values (drop (length (trace m)) (trace m'))) = [Inr (bnbBalance m')])"
  using assms
  apply (cases v)
   apply (simp_all add: fetchBalances.simps fetchBalances_sdk_def fetchBalances_w3m_def readBalances_def act_defs Let_def
       split: option.splits if_splits reply.splits sum.splits)
   apply auto
  done

lemma switch_run:
  assumes run: "switchToBNBChain v m = (r, m')"
  shows "r = Inr ()"
    and "SetError [] \<notin> set (drop (length (trace m)) (trace m'))"
    and "Call (ProviderRequest (wallet_switchEthereumChain cid)) (Threw e) \<in> set (drop (length (trace m)) (trace m'))
         \<Longrightarrow> code e = Some 4902 \<Longrightarrow> add_requests (drop (length (trace m)) (trace m')) = [bsc_params]"
    and "Call (ProviderRequest (wallet_switchEthereumChain cid)) (Threw e) \<in> set (drop (length (trace m)) (trace m'))
         \<Longrightarrow> code e \<noteq> Some 4902 \<Longrightarrow> error m' = ''Failed to switch network''"
    and "Call (ProviderRequest (wallet_addEthereumChain p)) (Threw e) \<in> set (drop (length (trace m)) (trace m'))
         \<Longrightarrow> error m' = ''Failed to add BSC network''"
  using assms
  by (cases v; auto simp: switchToBNBChain.simps switchToBNBChain_sdk_def switchToBNBChain_w3m_def optional_request_def
        strict_request_def act_defs Let_def split: option.splits if_splits reply.splits)+

lemma connect_run:
  assumes run: "connect_sdk h m = (r, m')"
  shows "r = Inr ()"
    and "take 3 (drop (length (trace m)) (trace m')) = [Enter Connect, SetLoading True, SetError []]"
    and "Call SdkConnect (Threw e) \<in> set (drop (length (trace m)) (trace m')) \<Longrightarrow> error m' = message e"
    and "Call (ProviderRequest (wallet_switchEthereumChain cid)) (Threw e) \<in> set (drop (length (trace m)) (trace m'))
         \<Longrightarrow> code e \<noteq> Some 4902 \<Longrightarrow> error m' = ''Failed to switch network''"
    and "Call (ProviderRequest (wallet_addEthereumChain p)) (Threw e) \<in> set (drop (length (trace m)) (trace m'))
         \<Longrightarrow> error m' = ''Failed to add BSC network''"
  using assms
  by (auto simp: connect_sdk_def switchToBNBChain_sdk_def optional_request_def
        act_defs Let_def split: option.splits if_splits reply.splits)

lemma transfer_overwrite_run:
  assumes run: "handleTransfer L v m = (r, m')"
  shows "Call c (Threw e) \<in> set (drop (length (trace m)) (trace m'))
         \<Longrightarrow> Enter FetchBalances \<notin> set (drop (length (trace m)) (trace m')) \<Longrightarrow> error m' = message e"
    and "ev \<in> set (drop (length (trace m)) (trace m')) \<Longrightarrow> failed ev
         \<Longrightarrow> Enter FetchBalances \<in> set (drop (length (trace m)) (trace m')) \<Longrightarrow> error m' = ''Failed to fetch balances''"
  using assms
  by (cases v; simp add: transfer_simps split: reply.splits if_splits;
      auto simp: refresh_tail_excludes fetchBalances_after(1-4,6))+

section \<open>Facts that start from the answers of the wallet\<close>

text \<open>
  Which events an execution is bound to add, given the guards and the answers the wallet
  gives to the first calls.
\<close>

lemma fetch_reaches_failure:
  assumes "fetch_guard v" and "reads_fail L (replies m)"
  shows "\<exists>ev \<in> set (refresh_tail L v m). failed ev"
proof -
  obtain r m' where run: "fetchBalances L v m = (r, m')" by (cases "fetchBalances L v m")
  have "\<exists>ev \<in> set (drop (length (trace m)) (trace m')). failed ev"
    using assms run
    by (cases v; simp add: fetchBalances.simps fetchBalances_sdk_def fetchBalances_w3m_def readBalances_def
          reads_fail_def act_defs Let_def
          split: option.splits if_splits reply.splits sum.splits; auto)
  with run have "\<exists>ev \<in> set (events_of (fetchBalances L v) m). failed ev"
    by (simp add: events_of_def after_def)
  then show ?thesis by (simp add: fetch_events)
qed

lemma fetch_reaches_failure_events:
  assumes "fetch_guard v" and "reads_fail L (replies m)"
  shows "\<exists>ev \<in> set (events_of (fetchBalances L v) m). failed ev"
  using fetch_reaches_failure[OF assms] by (auto simp: fetch_events)

lemma transfer_reaches_success_run:
  assumes run: "handleTransfer L v m = (r, m')" and "guards_pass v m"
    and "replies m = Gave bp ## Gave sg ## Gave d ## Gave a ## Gave tx ## Gave rc ## rest"
  shows "Call (ContractTransfer (recipient m) a) (Gave tx) \<in> set (drop (length (trace m)) (trace m'))"
    and "Call TxWait (Gave rc) \<in> set (drop (length (trace m)) (trace m'))"
    and "Enter FetchBalances \<in> set (drop (length (trace m)) (trace m'))"
    and "fetch_guard v \<Longrightarrow> reads_fail L rest
           \<Longrightarrow> \<exists>ev \<in> set (drop (length (trace m)) (trace m')). failed ev"
  using assms
  by (cases v; simp add: transfer_simps; auto simp: fetch_reaches_failure refresh_tail_excludes)+

lemma transfer_reaches_failure_run:
  assumes run: "handleTransfer L v m = (r, m')" and "guards_pass v m"
  shows "replies m = Gave bp ## Gave sg ## Gave d ## Gave a ## Threw e ## rest
           \<Longrightarrow> Call (ContractTransfer (recipient m) a) (Threw e) \<in> set (drop (length (trace m)) (trace m'))"
    and "replies m = Gave bp ## Gave sg ## Gave d ## Gave a ## Gave tx ## Threw e ## rest
           \<Longrightarrow> Call TxWait (Threw e) \<in> set (drop (length (trace m)) (trace m'))"
    and "replies m = Gave bp ## Gave sg ## Gave d ## Gave a ## Threw e ## rest
           \<Longrightarrow> Enter FetchBalances \<notin> set (drop (length (trace m)) (trace m'))"
    and "replies m = Gave bp ## Gave sg ## Gave d ## Gave a ## Gave tx ## Threw e ## rest
           \<Longrightarrow> Enter FetchBalances \<notin> set (drop (length (trace m)) (trace m'))"
  using assms(2) assms(1)
  by (cases v; simp add: transfer_simps; auto simp: refresh_tail_excludes)+

lemma transfer_guarded_start_run:
  assumes run: "handleTransfer L v m = (r, m')" and "guards_pass v m"
  shows "take 3 (drop (length (trace m)) (trace m')) = [Enter HandleTransfer, SetLoading True, SetError []]"
    and "\<not> loading m'"
  using assms(2) assms(1)
  by (cases v; simp add: transfer_simps split: reply.splits if_splits; auto simp: fetchBalances_after(1-4,6))+

lemma transfer_reaches_call_run:
  assumes run: "handleTransfer L v m = (r, m')" and "guards_pass v m"
    and "replies m = Gave bp ## Gave sg ## Gave d ## Gave a ## r5 ## rest"
  shows "prefix [Enter HandleTransfer, SetLoading True, SetError [],
                 Call (NewBrowserProvider (app_provider v)) (Gave bp), Call GetSigner (Gave sg),
                 Call ContractDecimals (Gave d), Call (ParseUnits (amount m) d) (Gave a),
                 Call (ContractTransfer (recipient m) a) r5] (drop (length (trace m)) (trace m'))"
  using assms(2,3) assms(1)
  by (cases v; simp add: transfer_simps split: reply.splits if_splits; auto)

lemma transfer_refused_run:
  assumes run: "handleTransfer L v m = (r, m')"
  shows "recipient m = [] \<or> amount m = []
           \<Longrightarrow> drop (length (trace m)) (trace m')
                = [Enter HandleTransfer, SetError ''Please enter recipient address and amount'']"
    and "recipient m \<noteq> [] \<Longrightarrow> amount m \<noteq> [] \<Longrightarrow> \<not> guards_pass v m
           \<Longrightarrow> drop (length (trace m)) (trace m')
                = [Enter HandleTransfer, SetError ''Please connect your wallet'']"
  using assms
  by (cases v; auto simp add: handleTransfer.simps handleTransfer_sdk_def handleTransfer_w3m_def act_defs)+

lemma switch_reaches_run:
  assumes run: "switchToBNBChain v m = (r, m')" and "app_provider v = Some p"
  shows "replies m = Threw e ## rest
           \<Longrightarrow> Call (ProviderRequest (wallet_switchEthereumChain ''0x38'')) (Threw e)
                \<in> set (drop (length (trace m)) (trace m'))"
    and "replies m = Threw e ## Threw e2 ## rest2 \<Longrightarrow> code e = Some 4902
           \<Longrightarrow> Call (ProviderRequest (wallet_addEthereumChain bsc_params)) (Threw e2)
                \<in> set (drop (length (trace m)) (trace m'))"
proof -
  show "replies m = Threw e ## rest
           \<Longrightarrow> Call (ProviderRequest (wallet_switchEthereumChain ''0x38'')) (Threw e)
                \<in> set (drop (length (trace m)) (trace m'))"
    using assms(2) assms(1)
    apply (cases v)
     apply (simp_all add: switchToBNBChain.simps switchToBNBChain_sdk_def switchToBNBChain_w3m_def
        optional_request_def strict_request_def act_defs Let_def split: if_splits reply.splits)
     apply auto
    done
  show "replies m = Threw e ## Threw e2 ## rest2 \<Longrightarrow> code e = Some 4902
           \<Longrightarrow> Call (ProviderRequest (wallet_addEthereumChain bsc_params)) (Threw e2)
                \<in> set (drop (length (trace m)) (trace m'))"
    using assms(2) assms(1)
    apply (cases v)
     apply (simp_all add: switchToBNBChain.simps switchToBNBChain_sdk_def switchToBNBChain_w3m_def
        optional_request_def strict_request_def act_defs Let_def)
     apply auto
    done
qed

section \<open>The loading flag during an attempt\<close>

text \<open>
  \<^verbatim>\<open>handleTransfer\<close> makes every outside call between \<^verbatim>\<open>setLoading(true)\<close> and
  \<^verbatim>\<open>setLoading(false)\<close>.
\<close>

lemma calls_while_loading_append:
  assumes "\<forall>ev \<in> set evs. \<forall>b'. ev \<noteq> SetLoading b'"
  shows "calls_while_loading True (evs @ rest) = calls_while_loading True rest"
  using assms
proof (induction evs)
  case Nil
  then show ?case by simp
next
  case (Cons ev evs)
  then show ?case by (cases ev) auto
qed

lemma refresh_tail_keeps_loading:
  "calls_while_loading True (refresh_tail L v m @ rest) = calls_while_loading True rest"
  by (rule calls_while_loading_append) (auto simp: refresh_tail_excludes)

lemma transfer_calls_while_loading_run:
  assumes "handleTransfer L v m = (r, m')"
  shows "calls_while_loading b (drop (length (trace m)) (trace m'))"
  using assms
  by (cases v; simp add: transfer_simps refresh_tail_keeps_loading split: reply.splits if_splits;
      auto simp: refresh_tail_keeps_loading)

lemma suspended_while_loading:
  assumes "calls_while_loading (loading m) (pre @ Call c r # post)"
  shows "loading (fold render_event pre m)"
  using assms
proof (induction pre arbitrary: m)
  case Nil
  then show ?case by simp
next
  case (Cons ev pre)
  show ?case
  proof (cases ev)
    case (SetLoading b')
    with Cons show ?thesis by simp
  next
    case (Call c' r')
    with Cons.prems have "calls_while_loading (loading m) (pre @ Call c r # post)"
      by (cases "loading m") simp_all
    with Cons.IH[of "render_event ev m"] Call show ?thesis by simp
  qed (use Cons in simp_all)
qed

section \<open>Replaying the events of a handler\<close>

text \<open>
  Every combinator keeps the property that the machine an action leaves is the one its
  events render, so the handlers have it.
\<close>

lemma replaysI:
  assumes "\<And>m. \<exists>evs. trace (snd (a m)) = trace m @ evs \<and> snd (a m) = fold render_event evs m"
  shows "replays a"
  using assms by (simp add: replays_def after_def)

lemma replaysD:
  assumes "replays a"
  obtains evs where "trace (snd (a m)) = trace m @ evs" and "snd (a m) = fold render_event evs m"
  using assms unfolding replays_def after_def by blast

lemma replays_step:
  assumes "\<And>m. snd (a m) = render_event ev m"
  shows "replays a"
proof (rule replaysI)
  fix m
  have "trace (render_event ev m) = trace m @ [ev]" by (cases ev) simp_all
  with assms[of m] show "\<exists>evs. trace (snd (a m)) = trace m @ evs \<and> snd (a m) = fold render_event evs m"
    by (intro exI[of _ "[ev]"]) simp
qed

lemma replays_ret: "replays (ret x)"
  by (rule replaysI) (simp add: ret_def)

lemma replays_throw: "replays (throw e)"
  by (rule replaysI) (simp add: throw_def)

lemma replays_then:
  assumes a: "replays a" and f: "\<And>m. replays (k m)"
    and eq: "\<And>m. snd (b m) = snd (k m (snd (a m)))"
  shows "replays b"
proof (rule replaysI)
  fix m
  from a obtain evs1 where 1: "trace (snd (a m)) = trace m @ evs1" "snd (a m) = fold render_event evs1 m"
    by (rule replaysD)
  from f[of m] obtain evs2 where 2: "trace (snd (k m (snd (a m)))) = trace (snd (a m)) @ evs2"
      "snd (k m (snd (a m))) = fold render_event evs2 (snd (a m))"
    by (rule replaysD)
  from 1 2 eq[of m] show "\<exists>evs. trace (snd (b m)) = trace m @ evs \<and> snd (b m) = fold render_event evs m"
    by (intro exI[of _ "evs1 @ evs2"]) simp
qed

lemma replays_await:
  assumes "replays a" and "\<And>x. replays (f x)"
  shows "replays (await a f)"
proof (rule replays_then[OF assms(1), where k = "\<lambda>m. case fst (a m) of Inl e \<Rightarrow> throw e | Inr x \<Rightarrow> f x"])
  fix m
  show "replays (case fst (a m) of Inl e \<Rightarrow> throw e | Inr x \<Rightarrow> f x)"
    using assms(2) by (cases "fst (a m)") (simp_all add: replays_throw)
  show "snd (await a f m) = snd ((case fst (a m) of Inl e \<Rightarrow> throw e | Inr x \<Rightarrow> f x) (snd (a m)))"
    by (cases "a m"; cases "fst (a m)") (simp_all add: await_def throw_def)
qed

lemma replays_seq:
  assumes "replays a" and "replays b"
  shows "replays (seq a b)"
  unfolding seq_def using assms by (intro replays_await)

lemma replays_ignore:
  assumes "replays a"
  shows "replays (ignore a)"
  unfolding ignore_def using assms by (intro replays_await replays_ret)

lemma replays_block:
  assumes "\<And>a. a \<in> set as \<Longrightarrow> replays a"
  shows "replays (block as)"
  using assms by (induction as) (simp_all add: replays_ret replays_seq)

lemma replays_try_catch:
  assumes "replays a" and "\<And>e. replays (h e)"
  shows "replays (try_catch a h)"
proof (rule replays_then[OF assms(1), where k = "\<lambda>m. case fst (a m) of Inl e \<Rightarrow> h e | Inr x \<Rightarrow> ret x"])
  fix m
  show "replays (case fst (a m) of Inl e \<Rightarrow> h e | Inr x \<Rightarrow> ret x)"
    using assms(2) by (cases "fst (a m)") (simp_all add: replays_ret)
  show "snd (try_catch a h m) = snd ((case fst (a m) of Inl e \<Rightarrow> h e | Inr x \<Rightarrow> ret x) (snd (a m)))"
    by (cases "a m"; cases "fst (a m)") (simp_all add: try_catch_def ret_def)
qed

lemma replays_with_finally:
  assumes "replays a" and "replays fin"
  shows "replays (with_finally a fin)"
proof (rule replays_then[OF assms(1), where k = "\<lambda>m. fin"])
  fix m
  show "replays fin" by (rule assms(2))
  show "snd (with_finally a fin m) = snd (fin (snd (a m)))"
    by (cases "a m"; cases "fin (snd (a m))"; cases "fst (fin (snd (a m)))")
       (simp_all add: with_finally_def)
qed

lemma replays_steps:
  "replays (enter f)" "replays (lib g r)" "replays (invoke c)"
  "replays (setBnbBalance s)" "replays (setUsdtBalance s)" "replays (setLoading b)"
  "replays (setError s)" "replays (setRecipient s)" "replays (setAmount s)"
proof -
  show "replays (enter f)" by (rule replays_step[where ev = "Enter f"]) (simp add: enter_def)
  show "replays (lib g r)" by (rule replays_step[where ev = "Lib g r"]) (simp add: lib_def)
  show "replays (setBnbBalance s)" by (rule replays_step[where ev = "SetBnbBalance s"]) (simp add: setBnbBalance_def)
  show "replays (setUsdtBalance s)" by (rule replays_step[where ev = "SetUsdtBalance s"]) (simp add: setUsdtBalance_def)
  show "replays (setLoading b)" by (rule replays_step[where ev = "SetLoading b"]) (simp add: setLoading_def)
  show "replays (setError s)" by (rule replays_step[where ev = "SetError s"]) (simp add: setError_def)
  show "replays (setRecipient s)" by (rule replays_step[where ev = "SetRecipient s"]) (simp add: setRecipient_def)
  show "replays (setAmount s)" by (rule replays_step[where ev = "SetAmount s"]) (simp add: setAmount_def)
  show "replays (invoke c)"
  proof (rule replaysI)
    fix m
    show "\<exists>evs. trace (snd (invoke c m)) = trace m @ evs \<and> snd (invoke c m) = fold render_event evs m"
      by (intro exI[of _ "[Call c (shd (replies m))]"]) (simp add: invoke_def Let_def split: reply.splits)
  qed
qed

lemma replays_closure:
  assumes "\<And>m0. replays (g m0)"
  shows "replays (\<lambda>m. g m m)"
  using assms unfolding replays_def after_def by simp

lemma replays_readBalances: "replays (readBalances L acct p)"
  unfolding readBalances_def
  by (intro replays_await replays_seq replays_steps)

lemma replays_fetchBalances: "replays (fetchBalances L v)"
proof (cases v)
  case (SdkApp h)
  show ?thesis unfolding SdkApp fetchBalances.simps fetchBalances_sdk_def
    by (intro replays_seq replays_steps)
       (auto split: option.splits intro!: replays_ret replays_try_catch replays_readBalances replays_steps)
next
  case (W3mApp h)
  show ?thesis unfolding W3mApp fetchBalances.simps fetchBalances_w3m_def
    by (intro replays_seq replays_steps)
       (auto split: option.splits intro!: replays_ret replays_try_catch replays_readBalances replays_steps)
qed

lemma replays_submitTransfer:
  assumes "replays refresh"
  shows "replays (submitTransfer p rcp amt refresh)"
  unfolding submitTransfer_def
  by (simp add: assms replays_await replays_seq replays_ret replays_steps)

lemma replays_handleTransfer: "replays (handleTransfer L v)"
proof (cases v)
  case (SdkApp h)
  have "replays (\<lambda>m. (if recipient m = [] \<or> amount m = [] then
              setError ''Please enter recipient address and amount''
            else
              with_finally
                (try_catch
                   (submitTransfer (provider h) (recipient m) (amount m) (fetchBalances L (SdkApp h)))
                   (\<lambda>err. setError (message err)))
                (setLoading False)) m)"
    by (rule replays_closure)
       (auto intro!: replays_with_finally replays_try_catch replays_submitTransfer replays_fetchBalances
          replays_steps)
  then have "replays (seq (enter HandleTransfer) (\<lambda>m. (if recipient m = [] \<or> amount m = [] then
              setError ''Please enter recipient address and amount''
            else
              with_finally
                (try_catch
                   (submitTransfer (provider h) (recipient m) (amount m) (fetchBalances L (SdkApp h)))
                   (\<lambda>err. setError (message err)))
                (setLoading False)) m))"
    by (intro replays_seq replays_steps)
  moreover have "handleTransfer L v = seq (enter HandleTransfer) (\<lambda>m. (if recipient m = [] \<or> amount m = [] then
              setError ''Please enter recipient address and amount''
            else
              with_finally
                (try_catch
                   (submitTransfer (provider h) (recipient m) (amount m) (fetchBalances L (SdkApp h)))
                   (\<lambda>err. setError (message err)))
                (setLoading False)) m)"
    unfolding SdkApp handleTransfer.simps handleTransfer_sdk_def fetch_variants
    by (intro arg_cong[where f = "seq (enter HandleTransfer)"] ext) simp
  ultimately show ?thesis by simp
next
  case (W3mApp h)
  have "replays (\<lambda>m. (if recipient m = [] \<or> amount m = [] then
              setError ''Please enter recipient address and amount''
            else if walletProvider h = None then
              setError ''Please connect your wallet''
            else
              with_finally
                (try_catch
                   (submitTransfer (walletProvider h) (recipient m) (amount m) (fetchBalances L (W3mApp h)))
                   (\<lambda>err. setError (message err)))
                (setLoading False)) m)"
    by (rule replays_closure)
       (auto intro!: replays_with_finally replays_try_catch replays_submitTransfer replays_fetchBalances
          replays_steps)
  then have "replays (seq (enter HandleTransfer) (\<lambda>m. (if recipient m = [] \<or> amount m = [] then
              setError ''Please enter recipient address and amount''
            else if walletProvider h = None then
              setError ''Please connect your wallet''
            else
              with_finally
                (try_catch
                   (submitTransfer (walletProvider h) (recipient m) (amount m) (fetchBalances L (W3mApp h)))
                   (\<lambda>err. setError (message err)))
                (setLoading False)) m))"
    by (intro replays_seq replays_steps)
  moreover have "handleTransfer L v = seq (enter HandleTransfer) (\<lambda>m. (if recipient m = [] \<or> amount m = [] then
              setError ''Please enter recipient address and amount''
            else if walletProvider h = None then
              setError ''Please connect your wallet''
            else
              with_finally
                (try_catch
                   (submitTransfer (walletProvider h) (recipient m) (amount m) (fetchBalances L (W3mApp h)))
                   (\<lambda>err. setError (message err)))
                (setLoading False)) m)"
    unfolding W3mApp handleTransfer.simps handleTransfer_w3m_def fetch_variants
    by (intro arg_cong[where f = "seq (enter HandleTransfer)"] ext) simp
  ultimately show ?thesis by simp
qed

lemma rendered_handleTransfer:
  "rendered (events_of (handleTransfer L v) m) m = after (handleTransfer L v) m"
proof -
  from replays_handleTransfer[of L v]
  obtain evs where "trace (after (handleTransfer L v) m) = trace m @ evs"
    and "after (handleTransfer L v) m = fold render_event evs m"
    unfolding replays_def by blast
  then show ?thesis by (simp add: rendered_def events_of_def)
qed

section \<open>Sample executions\<close>

text \<open>What the handlers do on the sample answers; the witnesses below evaluate these.\<close>

lemmas format_eval = ethers_v6_def ethers_formatUnits_def fixed_toString_def decimal.simps
  pad_zeros.simps digit_char_def

lemma format_samples:
  "formatEther ethers_v6 500000000000000000 = Inr ''0.5''"
  "formatEther ethers_v6 1000000000000000000 = Inr ''1.0''"
  "formatUnits ethers_v6 25000000000000000000 18 = Inr ''25.0''"
  by (simp_all add: format_eval Let_def)

lemmas handler_defs = handleTransfer.simps handleTransfer_sdk_def handleTransfer_w3m_def submitTransfer_def
  fetchBalances.simps fetchBalances_sdk_def fetchBalances_w3m_def readBalances_def
  switchToBNBChain.simps switchToBNBChain_sdk_def switchToBNBChain_w3m_def connect_sdk_def
  optional_request_def strict_request_def

lemma healthy_refresh:
  assumes "replies m = healthy_reads"
  shows "fetchBalances ethers_v6 (SdkApp sdk_session) m =
   (Inr (), m\<lparr>bnbBalance := ''0.5'', usdtBalance := ''25.0'',
      trace := trace m @ [Enter FetchBalances,
        Call (NewBrowserProvider (Some 1)) (Gave 0),
        Call (GetBalance ''0x00000000000000000000000000000000000000A1'') (Gave 500000000000000000),
        Lib (FormatEther 500000000000000000) (Inr ''0.5''),
        SetBnbBalance ''0.5'',
        Call ContractDecimals (Gave 18),
        Call (ContractBalanceOf ''0x00000000000000000000000000000000000000A1'') (Gave 25000000000000000000),
        Lib (FormatUnits 25000000000000000000 18) (Inr ''25.0''),
        SetUsdtBalance ''25.0''],
      replies := sconst (Gave 0)\<rparr>)"
  using assms
  by (simp add: handler_defs act_defs Let_def format_samples sdk_session_def healthy_reads_def)

lemma broken_refresh:
  assumes "replies m = decimals_unreachable"
  shows "fetchBalances ethers_v6 (SdkApp sdk_session) m =
   (Inr (), m\<lparr>bnbBalance := ''1.0'', error := ''Failed to fetch balances'',
      trace := trace m @ [Enter FetchBalances,
        Call (NewBrowserProvider (Some 1)) (Gave 0),
        Call (GetBalance ''0x00000000000000000000000000000000000000A1'') (Gave 1000000000000000000),
        Lib (FormatEther 1000000000000000000) (Inr ''1.0''),
        SetBnbBalance ''1.0'',
        Call ContractDecimals (Threw network_error),
        SetError ''Failed to fetch balances''],
      replies := sconst (Gave 0)\<rparr>)"
  using assms
  by (simp add: handler_defs act_defs Let_def format_samples sdk_session_def decimals_unreachable_def)

lemma confirmed_transfer:
  assumes "recipient m \<noteq> []" and "amount m \<noteq> []" and "replies m = transfer_confirmed rs"
  shows "handleTransfer L (SdkApp sdk_session) m =
    (case fetchBalances L (SdkApp sdk_session)
        (m\<lparr>loading := True, error := [],
           trace := trace m @ [Enter HandleTransfer, SetLoading True, SetError [],
             Call (NewBrowserProvider (Some 1)) (Gave 0), Call GetSigner (Gave 0),
             Call ContractDecimals (Gave 18), Call (ParseUnits (amount m) 18) (Gave 1000000000000000000),
             Call (ContractTransfer (recipient m) 1000000000000000000) (Gave 0),
             Call TxWait (Gave 0)],
           replies := rs\<rparr>) of
       (r, m') \<Rightarrow> (Inr (), m'\<lparr>recipient := [], amount := [], loading := False,
           trace := trace m' @ [SetRecipient [], SetAmount [], SetLoading False]\<rparr>))"
  using assms
  by (simp add: transfer_simps sdk_session_def transfer_confirmed_def)

lemma rejected_transfer:
  assumes "recipient m \<noteq> []" and "amount m \<noteq> []" and "replies m = transfer_rejected"
  shows "handleTransfer L (SdkApp sdk_session) m =
    (Inr (), m\<lparr>loading := False, error := ''user rejected action'',
       trace := trace m @ [Enter HandleTransfer, SetLoading True, SetError [],
         Call (NewBrowserProvider (Some 1)) (Gave 0), Call GetSigner (Gave 0),
         Call ContractDecimals (Gave 18), Call (ParseUnits (amount m) 18) (Gave 1000000000000000000),
         Call (ContractTransfer (recipient m) 1000000000000000000) (Threw user_rejected),
         SetError ''user rejected action'', SetLoading False],
       replies := sconst (Gave 0)\<rparr>)"
  using assms
  by (simp add: transfer_simps sdk_session_def transfer_rejected_def user_rejected_def)

lemma unready_transfer:
  assumes "recipient m \<noteq> []" and "amount m \<noteq> []" and "replies m = Threw invalid_provider ## rs"
  shows "handleTransfer L (SdkApp (sdk_session\<lparr>provider := None\<rparr>)) m =
    (Inr (), m\<lparr>loading := False, error := ''invalid EIP-1193 provider'',
       trace := trace m @ [Enter HandleTransfer, SetLoading True, SetError [],
         Call (NewBrowserProvider None) (Threw invalid_provider),
         SetError ''invalid EIP-1193 provider'', SetLoading False],
       replies := rs\<rparr>)"
  using assms
  by (simp add: transfer_simps sdk_session_def invalid_provider_def)

lemma unready_transfer_w3m:
  assumes "recipient m \<noteq> []" and "amount m \<noteq> []"
  shows "handleTransfer L (W3mApp (w3m_session\<lparr>walletProvider := None\<rparr>)) m =
    (Inr (), m\<lparr>error := ''Please connect your wallet'',
       trace := trace m @ [Enter HandleTransfer, SetError ''Please connect your wallet'']\<rparr>)"
  using assms
  by (simp add: transfer_simps w3m_session_def)

lemma unknown_chain_switch:
  assumes "replies m = Threw unknown_chain ## r ## rs"
  shows "switchToBNBChain (SdkApp sdk_session) m =
    (case r of
       Gave x \<Rightarrow> (Inr (), m\<lparr>trace := trace m @ [Enter SwitchToBNBChain,
           Call (ProviderRequest (wallet_switchEthereumChain ''0x38'')) (Threw unknown_chain),
           Call (ProviderRequest (wallet_addEthereumChain bsc_params)) r], replies := rs\<rparr>)
     | Threw e \<Rightarrow> (Inr (), m\<lparr>error := ''Failed to add BSC network'',
           trace := trace m @ [Enter SwitchToBNBChain,
           Call (ProviderRequest (wallet_switchEthereumChain ''0x38'')) (Threw unknown_chain),
           Call (ProviderRequest (wallet_addEthereumChain bsc_params)) r,
           SetError ''Failed to add BSC network''], replies := rs\<rparr>))"
  using assms
  by (simp add: switchToBNBChain.simps switchToBNBChain_sdk_def optional_request_def act_defs Let_def sdk_session_def unknown_chain_def
        split: reply.splits)

lemma refused_switch:
  assumes "replies m = Threw user_rejected ## rs"
  shows "switchToBNBChain (SdkApp sdk_session) m =
    (Inr (), m\<lparr>error := ''Failed to switch network'',
           trace := trace m @ [Enter SwitchToBNBChain,
           Call (ProviderRequest (wallet_switchEthereumChain ''0x38'')) (Threw user_rejected),
           SetError ''Failed to switch network''], replies := rs\<rparr>)"
  using assms
  by (simp add: switchToBNBChain.simps switchToBNBChain_sdk_def optional_request_def act_defs Let_def sdk_session_def user_rejected_def)

lemma refused_connect:
  assumes "replies m = Threw user_rejected ## rs"
  shows "connect_sdk sdk_session m =
    (Inr (), m\<lparr>loading := False, error := ''user rejected action'',
           trace := trace m @ [Enter Connect, SetLoading True, SetError [],
           Call SdkConnect (Threw user_rejected), SetError ''user rejected action'', SetLoading False],
           replies := rs\<rparr>)"
  using assms
  by (simp add: connect_sdk_def act_defs Let_def sdk_session_def user_rejected_def)

lemma connect_then_switch:
  assumes "replies m = Gave 0 ## rs"
  shows "connect_sdk sdk_session m =
    (case switchToBNBChain (SdkApp sdk_session)
        (m\<lparr>loading := True, error := [],
            trace := trace m @ [Enter Connect, SetLoading True, SetError [], Call SdkConnect (Gave 0)],
            replies := rs\<rparr>) of
      (r, m') \<Rightarrow> (Inr (), m'\<lparr>loading := False, trace := trace m' @ [SetLoading False]\<rparr>))"
  using assms
  by (simp add: connect_sdk_def switchToBNBChain.simps switchToBNBChain_sdk_def optional_request_def act_defs
        Let_def sdk_session_def split: reply.splits)

lemma healthy_refresh_w3m:
  assumes "replies m = healthy_reads"
  shows "fetchBalances ethers_v6 (W3mApp w3m_session) m =
   (Inr (), m\<lparr>bnbBalance := ''0.5'', usdtBalance := ''25.0'',
      trace := trace m @ [Enter FetchBalances,
        Call (NewBrowserProvider (Some 1)) (Gave 0),
        Call (GetBalance ''0x00000000000000000000000000000000000000A1'') (Gave 500000000000000000),
        Lib (FormatEther 500000000000000000) (Inr ''0.5''),
        SetBnbBalance ''0.5'',
        Call ContractDecimals (Gave 18),
        Call (ContractBalanceOf ''0x00000000000000000000000000000000000000A1'') (Gave 25000000000000000000),
        Lib (FormatUnits 25000000000000000000 18) (Inr ''25.0''),
        SetUsdtBalance ''25.0''],
      replies := sconst (Gave 0)\<rparr>)"
  using assms
  by (simp add: handler_defs act_defs Let_def format_samples w3m_session_def healthy_reads_def)

lemma broken_refresh_w3m:
  assumes "replies m = decimals_unreachable"
  shows "fetchBalances ethers_v6 (W3mApp w3m_session) m =
   (Inr (), m\<lparr>bnbBalance := ''1.0'', error := ''Failed to fetch balances'',
      trace := trace m @ [Enter FetchBalances,
        Call (NewBrowserProvider (Some 1)) (Gave 0),
        Call (GetBalance ''0x00000000000000000000000000000000000000A1'') (Gave 1000000000000000000),
        Lib (FormatEther 1000000000000000000) (Inr ''1.0''),
        SetBnbBalance ''1.0'',
        Call ContractDecimals (Threw network_error),
        SetError ''Failed to fetch balances''],
      replies := sconst (Gave 0)\<rparr>)"
  using assms
  by (simp add: handler_defs act_defs Let_def format_samples w3m_session_def decimals_unreachable_def)

lemma confirmed_transfer_w3m:
  assumes "recipient m \<noteq> []" and "amount m \<noteq> []" and "replies m = transfer_confirmed rs"
  shows "handleTransfer L (W3mApp w3m_session) m =
    (case fetchBalances L (W3mApp w3m_session)
        (m\<lparr>loading := True, error := [],
           trace := trace m @ [Enter HandleTransfer, SetLoading True, SetError [],
             Call (NewBrowserProvider (Some 1)) (Gave 0), Call GetSigner (Gave 0),
             Call ContractDecimals (Gave 18), Call (ParseUnits (amount m) 18) (Gave 1000000000000000000),
             Call (ContractTransfer (recipient m) 1000000000000000000) (Gave 0),
             Call TxWait (Gave 0)],
           replies := rs\<rparr>) of
       (r, m') \<Rightarrow> (Inr (), m'\<lparr>recipient := [], amount := [], loading := False,
           trace := trace m' @ [SetRecipient [], SetAmount [], SetLoading False]\<rparr>))"
  using assms
  by (simp add: transfer_simps w3m_session_def transfer_confirmed_def)

lemma rejected_transfer_w3m:
  assumes "recipient m \<noteq> []" and "amount m \<noteq> []" and "replies m = transfer_rejected"
  shows "handleTransfer L (W3mApp w3m_session) m =
    (Inr (), m\<lparr>loading := False, error := ''user rejected action'',
       trace := trace m @ [Enter HandleTransfer, SetLoading True, SetError [],
         Call (NewBrowserProvider (Some 1)) (Gave 0), Call GetSigner (Gave 0),
         Call ContractDecimals (Gave 18), Call (ParseUnits (amount m) 18) (Gave 1000000000000000000),
         Call (ContractTransfer (recipient m) 1000000000000000000) (Threw user_rejected),
         SetError ''user rejected action'', SetLoading False],
       replies := sconst (Gave 0)\<rparr>)"
  using assms
  by (simp add: transfer_simps w3m_session_def transfer_rejected_def user_rejected_def)

lemma unknown_chain_switch_w3m:
  assumes "replies m = Threw unknown_chain ## r ## rs"
  shows "switchToBNBChain (W3mApp w3m_session) m =
    (case r of
       Gave x \<Rightarrow> (Inr (), m\<lparr>trace := trace m @ [Enter SwitchToBNBChain,
           Call (ProviderRequest (wallet_switchEthereumChain ''0x38'')) (Threw unknown_chain),
           Call (ProviderRequest (wallet_addEthereumChain bsc_params)) r], replies := rs\<rparr>)
     | Threw e \<Rightarrow> (Inr (), m\<lparr>error := ''Failed to add BSC network'',
           trace := trace m @ [Enter SwitchToBNBChain,
           Call (ProviderRequest (wallet_switchEthereumChain ''0x38'')) (Threw unknown_chain),
           Call (ProviderRequest (wallet_addEthereumChain bsc_params)) r,
           SetError ''Failed to add BSC network''], replies := rs\<rparr>))"
  using assms
  by (simp add: switchToBNBChain.simps switchToBNBChain_w3m_def strict_request_def act_defs Let_def
        w3m_session_def unknown_chain_def split: reply.splits)

lemma refused_switch_w3m:
  assumes "replies m = Threw user_rejected ## rs"
  shows "switchToBNBChain (W3mApp w3m_session) m =
    (Inr (), m\<lparr>error := ''Failed to switch network'',
           trace := trace m @ [Enter SwitchToBNBChain,
           Call (ProviderRequest (wallet_switchEthereumChain ''0x38'')) (Threw user_rejected),
           SetError ''Failed to switch network''], replies := rs\<rparr>)"
  using assms
  by (simp add: switchToBNBChain.simps switchToBNBChain_w3m_def strict_request_def act_defs Let_def
        w3m_session_def user_rejected_def)

lemmas run_reading = events_of_def after_def filled_def initial_def

section \<open>Transfer submission\<close>

text \<open>
  Claim C1. When the recipient field or the amount field is empty, \<^verbatim>\<open>handleTransfer\<close>
  stores the validation message in the error slot and returns: no outside call is made
  and nothing else in the state changes, in either variant.
\<close>

theorem handleTransfer_rejects_empty_fields:
  assumes "recipient m = [] \<or> amount m = []"
  shows "handleTransfer L v m =
           (Inr (), m\<lparr>error := ''Please enter recipient address and amount'',
                       trace := trace m @ [Enter HandleTransfer,
                          SetError ''Please enter recipient address and amount'']\<rparr>)
       \<and> filter is_call (events_of (handleTransfer L v) m) = []"
  using assms
  by (cases v) (auto simp: handleTransfer.simps handleTransfer_sdk_def handleTransfer_w3m_def act_defs
        events_of_def after_def)

theorem handleTransfer_rejects_empty_fields_witness:
  "(recipient (initial healthy_reads) = [] \<or> amount (initial healthy_reads) = [])
   \<and> handleTransfer ethers_v6 (W3mApp w3m_session) (initial healthy_reads) =
       (Inr (), (initial healthy_reads)\<lparr>error := ''Please enter recipient address and amount'',
                  trace := [Enter HandleTransfer, SetError ''Please enter recipient address and amount'']\<rparr>)
   \<and> filter is_call (events_of (handleTransfer ethers_v6 (W3mApp w3m_session)) (initial healthy_reads)) = []"
proof -
  have h: "recipient (initial healthy_reads) = [] \<or> amount (initial healthy_reads) = []"
    by (simp add: initial_def)
  from handleTransfer_rejects_empty_fields[OF h, of ethers_v6 "W3mApp w3m_session"] h
  show ?thesis by (simp add: initial_def)
qed

text \<open>
  Claim C2. In every execution of \<^verbatim>\<open>handleTransfer\<close> in which the contract's
  \<^verbatim>\<open>transfer\<close> call and the wait for its confirmation both succeed, the recipient and
  amount fields end up empty and \<^verbatim>\<open>fetchBalances\<close> is entered exactly once. Such
  executions exist in both variants: when the guards pass and the wallet answers the six
  steps up to the confirmation (provider object, signer, decimals, parsed amount, transfer,
  wait) with a value, the trace holds the successful transfer to the entered recipient and
  the successful wait.
\<close>

theorem handleTransfer_success_clears_form:
  "(guards_pass v m
      \<and> replies m = Gave bp ## Gave sg ## Gave d ## Gave a ## Gave tx ## Gave rc ## rest
     \<longrightarrow> Call (ContractTransfer (recipient m) a) (Gave tx) \<in> set (events_of (handleTransfer L v) m)
        \<and> Call TxWait (Gave rc) \<in> set (events_of (handleTransfer L v) m))
   \<and> (Call (ContractTransfer rcp a) (Gave tx) \<in> set (events_of (handleTransfer L v) m)
      \<and> Call TxWait (Gave rc) \<in> set (events_of (handleTransfer L v) m)
     \<longrightarrow> recipient (after (handleTransfer L v) m) = []
        \<and> amount (after (handleTransfer L v) m) = []
        \<and> length (filter (\<lambda>ev. ev = Enter FetchBalances) (events_of (handleTransfer L v) m)) = 1)"
proof (intro conjI impI)
  note reach = transfer_reaches_success_run[OF run_of[of "handleTransfer L v" m], folded events_of_def]
  assume g: "guards_pass v m
      \<and> replies m = Gave bp ## Gave sg ## Gave d ## Gave a ## Gave tx ## Gave rc ## rest"
  from g show "Call (ContractTransfer (recipient m) a) (Gave tx) \<in> set (events_of (handleTransfer L v) m)"
    by (intro reach(1)) simp_all
  from g show "Call TxWait (Gave rc) \<in> set (events_of (handleTransfer L v) m)"
    by (intro reach(2)) simp_all
next
  assume h: "Call (ContractTransfer rcp a) (Gave tx) \<in> set (events_of (handleTransfer L v) m)
      \<and> Call TxWait (Gave rc) \<in> set (events_of (handleTransfer L v) m)"
  then have h1: "Call (ContractTransfer rcp a) (Gave tx)
        \<in> set (drop (length (trace m)) (trace (after (handleTransfer L v) m)))"
    and h2: "Call TxWait (Gave rc) \<in> set (drop (length (trace m)) (trace (after (handleTransfer L v) m)))"
    by (simp_all add: events_of_def)
  note cleared = transfer_success_run[OF run_of h1 h2]
  from cleared show "recipient (after (handleTransfer L v) m) = []" by simp
  from cleared show "amount (after (handleTransfer L v) m) = []" by simp
  from cleared show "length (filter (\<lambda>ev. ev = Enter FetchBalances) (events_of (handleTransfer L v) m)) = 1"
    by (simp add: events_of_def)
qed

theorem handleTransfer_success_clears_form_witness:
  "guards_pass (W3mApp w3m_session) (filled (transfer_confirmed healthy_reads))
   \<and> replies (filled (transfer_confirmed healthy_reads))
       = Gave 0 ## Gave 0 ## Gave 18 ## Gave 1000000000000000000 ## Gave 0 ## Gave 0 ## healthy_reads
   \<and> Call (ContractTransfer ''0x000000000000000000000000000000000000dEaD'' 1000000000000000000) (Gave 0)
     \<in> set (events_of (handleTransfer ethers_v6 (W3mApp w3m_session)) (filled (transfer_confirmed healthy_reads)))
   \<and> Call TxWait (Gave 0)
     \<in> set (events_of (handleTransfer ethers_v6 (W3mApp w3m_session)) (filled (transfer_confirmed healthy_reads)))
   \<and> recipient (after (handleTransfer ethers_v6 (W3mApp w3m_session)) (filled (transfer_confirmed healthy_reads))) = []
   \<and> amount (after (handleTransfer ethers_v6 (W3mApp w3m_session)) (filled (transfer_confirmed healthy_reads))) = []
   \<and> length (filter (\<lambda>ev. ev = Enter FetchBalances)
        (events_of (handleTransfer ethers_v6 (W3mApp w3m_session)) (filled (transfer_confirmed healthy_reads)))) = 1
   \<and> guards_pass (SdkApp sdk_session) (filled (transfer_confirmed healthy_reads))
   \<and> Call (ContractTransfer ''0x000000000000000000000000000000000000dEaD'' 1000000000000000000) (Gave 0)
     \<in> set (events_of (handleTransfer ethers_v6 (SdkApp sdk_session)) (filled (transfer_confirmed healthy_reads)))
   \<and> Call TxWait (Gave 0)
     \<in> set (events_of (handleTransfer ethers_v6 (SdkApp sdk_session)) (filled (transfer_confirmed healthy_reads)))
   \<and> recipient (after (handleTransfer ethers_v6 (SdkApp sdk_session)) (filled (transfer_confirmed healthy_reads))) = []
   \<and> amount (after (handleTransfer ethers_v6 (SdkApp sdk_session)) (filled (transfer_confirmed healthy_reads))) = []
   \<and> length (filter (\<lambda>ev. ev = Enter FetchBalances)
        (events_of (handleTransfer ethers_v6 (SdkApp sdk_session)) (filled (transfer_confirmed healthy_reads)))) = 1"
proof -
  let ?m = "filled (transfer_confirmed healthy_reads)"
  let ?w = "W3mApp w3m_session"
  let ?s = "SdkApp sdk_session"
  have gw: "guards_pass ?w ?m" by (simp add: filled_def initial_def w3m_session_def)
  have gs: "guards_pass ?s ?m" by (simp add: filled_def initial_def)
  have rp: "replies ?m
       = Gave 0 ## Gave 0 ## Gave 18 ## Gave 1000000000000000000 ## Gave 0 ## Gave 0 ## healthy_reads"
    by (simp add: filled_def initial_def transfer_confirmed_def)
  have rcp: "recipient ?m = ''0x000000000000000000000000000000000000dEaD''"
    by (simp add: filled_def initial_def)
  note w = handleTransfer_success_clears_form[where v = "?w" and m = "?m" and L = ethers_v6
      and bp = 0 and sg = 0 and d = 18 and a = 1000000000000000000 and tx = 0 and rc = 0
      and rest = healthy_reads and rcp = "''0x000000000000000000000000000000000000dEaD''"]
  note s = handleTransfer_success_clears_form[where v = "?s" and m = "?m" and L = ethers_v6
      and bp = 0 and sg = 0 and d = 18 and a = 1000000000000000000 and tx = 0 and rc = 0
      and rest = healthy_reads and rcp = "''0x000000000000000000000000000000000000dEaD''"]
  from w gw rp rcp
  have w1: "Call (ContractTransfer ''0x000000000000000000000000000000000000dEaD'' 1000000000000000000) (Gave 0)
     \<in> set (events_of (handleTransfer ethers_v6 ?w) ?m)"
    and w2: "Call TxWait (Gave 0) \<in> set (events_of (handleTransfer ethers_v6 ?w) ?m)"
    by simp_all
  from s gs rp rcp
  have s1: "Call (ContractTransfer ''0x000000000000000000000000000000000000dEaD'' 1000000000000000000) (Gave 0)
     \<in> set (events_of (handleTransfer ethers_v6 ?s) ?m)"
    and s2: "Call TxWait (Gave 0) \<in> set (events_of (handleTransfer ethers_v6 ?s) ?m)"
    by simp_all
  from w w1 w2 have w3: "recipient (after (handleTransfer ethers_v6 ?w) ?m) = []
     \<and> amount (after (handleTransfer ethers_v6 ?w) ?m) = []
     \<and> length (filter (\<lambda>ev. ev = Enter FetchBalances) (events_of (handleTransfer ethers_v6 ?w) ?m)) = 1"
    by blast
  from s s1 s2 have s3: "recipient (after (handleTransfer ethers_v6 ?s) ?m) = []
     \<and> amount (after (handleTransfer ethers_v6 ?s) ?m) = []
     \<and> length (filter (\<lambda>ev. ev = Enter FetchBalances) (events_of (handleTransfer ethers_v6 ?s) ?m)) = 1"
    by blast
  from gw rp w1 w2 w3 gs s1 s2 s3 show ?thesis by (intro conjI) simp_all
qed

text \<open>
  Claim C3. In every execution of \<^verbatim>\<open>handleTransfer\<close> in which the on-chain transfer
  step fails, that is the \<^verbatim>\<open>transfer\<close> call throws (rejection, network error) or the
  wait for its confirmation throws (revert), the recipient and amount fields keep the
  values they had at invocation and the error slot holds the thrown error's message. Such
  executions exist in both variants: when the guards pass, the steps before are answered
  with a value and the wallet answers the transfer, or the wait, with an error, that
  failed call is in the trace.
\<close>

theorem handleTransfer_failure_keeps_form:
  "(guards_pass v m
      \<and> replies m = Gave bp ## Gave sg ## Gave d ## Gave a ## Threw e ## rest
     \<longrightarrow> Call (ContractTransfer (recipient m) a) (Threw e) \<in> set (events_of (handleTransfer L v) m))
   \<and> (guards_pass v m
      \<and> replies m = Gave bp ## Gave sg ## Gave d ## Gave a ## Gave tx ## Threw e ## rest
     \<longrightarrow> Call TxWait (Threw e) \<in> set (events_of (handleTransfer L v) m))
   \<and> (Call (ContractTransfer rcp a) (Threw e) \<in> set (events_of (handleTransfer L v) m)
         \<or> Call TxWait (Threw e) \<in> set (events_of (handleTransfer L v) m)
     \<longrightarrow> recipient (after (handleTransfer L v) m) = recipient m
        \<and> amount (after (handleTransfer L v) m) = amount m
        \<and> error (after (handleTransfer L v) m) = message e)"
proof (intro conjI impI)
  note reach = transfer_reaches_failure_run[OF run_of[of "handleTransfer L v" m], folded events_of_def]
  assume g: "guards_pass v m
      \<and> replies m = Gave bp ## Gave sg ## Gave d ## Gave a ## Threw e ## rest"
  then show "Call (ContractTransfer (recipient m) a) (Threw e) \<in> set (events_of (handleTransfer L v) m)"
    by (intro reach(1)) simp_all
next
  note reach = transfer_reaches_failure_run[OF run_of[of "handleTransfer L v" m], folded events_of_def]
  assume g: "guards_pass v m
      \<and> replies m = Gave bp ## Gave sg ## Gave d ## Gave a ## Gave tx ## Threw e ## rest"
  then show "Call TxWait (Threw e) \<in> set (events_of (handleTransfer L v) m)"
    by (intro reach(2)) simp_all
next
  assume "Call (ContractTransfer rcp a) (Threw e) \<in> set (events_of (handleTransfer L v) m)
         \<or> Call TxWait (Threw e) \<in> set (events_of (handleTransfer L v) m)"
  then have h: "Call (ContractTransfer rcp a) (Threw e)
        \<in> set (drop (length (trace m)) (trace (after (handleTransfer L v) m)))
      \<or> Call TxWait (Threw e) \<in> set (drop (length (trace m)) (trace (after (handleTransfer L v) m)))"
    by (simp add: events_of_def)
  note kept = transfer_failure_run[OF run_of h]
  from kept show "recipient (after (handleTransfer L v) m) = recipient m" by simp
  from kept show "amount (after (handleTransfer L v) m) = amount m" by simp
  from kept show "error (after (handleTransfer L v) m) = message e" by simp
qed

theorem handleTransfer_failure_keeps_form_witness:
  "guards_pass (W3mApp w3m_session) (filled transfer_rejected)
   \<and> replies (filled transfer_rejected)
       = Gave 0 ## Gave 0 ## Gave 18 ## Gave 1000000000000000000 ## Threw user_rejected ## sconst (Gave 0)
   \<and> Call (ContractTransfer ''0x000000000000000000000000000000000000dEaD'' 1000000000000000000) (Threw user_rejected)
       \<in> set (events_of (handleTransfer ethers_v6 (W3mApp w3m_session)) (filled transfer_rejected))
   \<and> recipient (after (handleTransfer ethers_v6 (W3mApp w3m_session)) (filled transfer_rejected))
       = ''0x000000000000000000000000000000000000dEaD''
   \<and> amount (after (handleTransfer ethers_v6 (W3mApp w3m_session)) (filled transfer_rejected)) = ''1''
   \<and> error (after (handleTransfer ethers_v6 (W3mApp w3m_session)) (filled transfer_rejected))
       = ''user rejected action''
   \<and> guards_pass (W3mApp w3m_session)
        (filled (Gave 0 ## Gave 0 ## Gave 18 ## Gave 1000000000000000000 ## Gave 0 ## Threw network_error ## healthy_reads))
   \<and> Call TxWait (Threw network_error)
       \<in> set (events_of (handleTransfer ethers_v6 (W3mApp w3m_session))
            (filled (Gave 0 ## Gave 0 ## Gave 18 ## Gave 1000000000000000000 ## Gave 0 ## Threw network_error ## healthy_reads)))
   \<and> recipient (after (handleTransfer ethers_v6 (W3mApp w3m_session))
            (filled (Gave 0 ## Gave 0 ## Gave 18 ## Gave 1000000000000000000 ## Gave 0 ## Threw network_error ## healthy_reads)))
       = ''0x000000000000000000000000000000000000dEaD''
   \<and> amount (after (handleTransfer ethers_v6 (W3mApp w3m_session))
            (filled (Gave 0 ## Gave 0 ## Gave 18 ## Gave 1000000000000000000 ## Gave 0 ## Threw network_error ## healthy_reads)))
       = ''1''
   \<and> error (after (handleTransfer ethers_v6 (W3mApp w3m_session))
            (filled (Gave 0 ## Gave 0 ## Gave 18 ## Gave 1000000000000000000 ## Gave 0 ## Threw network_error ## healthy_reads)))
       = ''could not detect network''
   \<and> guards_pass (SdkApp sdk_session) (filled transfer_rejected)
   \<and> Call (ContractTransfer ''0x000000000000000000000000000000000000dEaD'' 1000000000000000000) (Threw user_rejected)
       \<in> set (events_of (handleTransfer ethers_v6 (SdkApp sdk_session)) (filled transfer_rejected))
   \<and> recipient (after (handleTransfer ethers_v6 (SdkApp sdk_session)) (filled transfer_rejected))
       = ''0x000000000000000000000000000000000000dEaD''
   \<and> amount (after (handleTransfer ethers_v6 (SdkApp sdk_session)) (filled transfer_rejected)) = ''1''
   \<and> error (after (handleTransfer ethers_v6 (SdkApp sdk_session)) (filled transfer_rejected))
       = ''user rejected action''"
proof -
  let ?m = "filled transfer_rejected"
  let ?m2 = "filled (Gave 0 ## Gave 0 ## Gave 18 ## Gave 1000000000000000000 ## Gave 0 ## Threw network_error ## healthy_reads)"
  let ?w = "W3mApp w3m_session"
  let ?s = "SdkApp sdk_session"
  let ?to = "''0x000000000000000000000000000000000000dEaD''"
  have gw: "guards_pass ?w ?m" by (simp add: filled_def initial_def w3m_session_def)
  have gw2: "guards_pass ?w ?m2" by (simp add: filled_def initial_def w3m_session_def)
  have gs: "guards_pass ?s ?m" by (simp add: filled_def initial_def)
  have rp: "replies ?m
       = Gave 0 ## Gave 0 ## Gave 18 ## Gave 1000000000000000000 ## Threw user_rejected ## sconst (Gave 0)"
    by (simp add: filled_def initial_def transfer_rejected_def)
  have rp2: "replies ?m2
       = Gave 0 ## Gave 0 ## Gave 18 ## Gave 1000000000000000000 ## Gave 0 ## Threw network_error ## healthy_reads"
    by (simp add: filled_def initial_def)
  have form: "recipient ?m = ?to" "amount ?m = ''1''" "recipient ?m2 = ?to" "amount ?m2 = ''1''"
    by (simp_all add: filled_def initial_def)
  have msg: "message user_rejected = ''user rejected action''"
      "message network_error = ''could not detect network''"
    by (simp_all add: user_rejected_def network_error_def)
  note w = handleTransfer_failure_keeps_form[where v = "?w" and m = "?m" and L = ethers_v6
      and bp = 0 and sg = 0 and d = 18 and a = 1000000000000000000 and e = user_rejected
      and rest = "sconst (Gave 0)" and rcp = "?to"]
  note w' = handleTransfer_failure_keeps_form[where v = "?w" and m = "?m2" and L = ethers_v6
      and bp = 0 and sg = 0 and d = 18 and a = 1000000000000000000 and tx = 0 and e = network_error
      and rest = healthy_reads and rcp = "?to"]
  note s = handleTransfer_failure_keeps_form[where v = "?s" and m = "?m" and L = ethers_v6
      and bp = 0 and sg = 0 and d = 18 and a = 1000000000000000000 and e = user_rejected
      and rest = "sconst (Gave 0)" and rcp = "?to"]
  from w gw rp form
  have w1: "Call (ContractTransfer ?to 1000000000000000000) (Threw user_rejected)
       \<in> set (events_of (handleTransfer ethers_v6 ?w) ?m)"
    by simp
  from w' gw2 rp2
  have w2: "Call TxWait (Threw network_error) \<in> set (events_of (handleTransfer ethers_v6 ?w) ?m2)"
    by simp
  from s gs rp form
  have s1: "Call (ContractTransfer ?to 1000000000000000000) (Threw user_rejected)
       \<in> set (events_of (handleTransfer ethers_v6 ?s) ?m)"
    by simp
  from w w1 have w3: "recipient (after (handleTransfer ethers_v6 ?w) ?m) = recipient ?m
     \<and> amount (after (handleTransfer ethers_v6 ?w) ?m) = amount ?m
     \<and> error (after (handleTransfer ethers_v6 ?w) ?m) = message user_rejected"
    by blast
  from w' w2 have w4: "recipient (after (handleTransfer ethers_v6 ?w) ?m2) = recipient ?m2
     \<and> amount (after (handleTransfer ethers_v6 ?w) ?m2) = amount ?m2
     \<and> error (after (handleTransfer ethers_v6 ?w) ?m2) = message network_error"
    by blast
  from s s1 have s3: "recipient (after (handleTransfer ethers_v6 ?s) ?m) = recipient ?m
     \<and> amount (after (handleTransfer ethers_v6 ?s) ?m) = amount ?m
     \<and> error (after (handleTransfer ethers_v6 ?s) ?m) = message user_rejected"
    by blast
  from gw rp w1 w3 gw2 w2 w4 gs s1 s3 form msg show ?thesis by (intro conjI) simp_all
qed

text \<open>
  Claim C10. \<^verbatim>\<open>fetchBalances\<close> never hands an exception to its caller. So when, in an
  execution of \<^verbatim>\<open>handleTransfer\<close>, the transfer and its confirmation succeed and a step
  of the balance refresh then fails, the recipient and amount fields are still cleared,
  the error slot holds \<^verbatim>\<open>Failed to fetch balances\<close> and the loading flag is false again.
  Such executions exist in both variants: when the guards of both handlers pass, the six
  steps up to the confirmation are answered with a value and the answers that follow make
  a read of the refresh fail, the trace holds the successful transfer, the successful wait
  and a failed step.
\<close>

theorem refresh_failure_after_transfer:
  "fst (fetchBalances L v m0) = Inr ()
   \<and> (guards_pass v m \<and> fetch_guard v
        \<and> replies m = Gave bp ## Gave sg ## Gave d ## Gave a ## Gave tx ## Gave rc ## rest
        \<and> reads_fail L rest
      \<longrightarrow> Call (ContractTransfer (recipient m) a) (Gave tx) \<in> set (events_of (handleTransfer L v) m)
         \<and> Call TxWait (Gave rc) \<in> set (events_of (handleTransfer L v) m)
         \<and> (\<exists>ev' \<in> set (events_of (handleTransfer L v) m). failed ev'))
   \<and> (Call (ContractTransfer rcp a) (Gave tx) \<in> set (events_of (handleTransfer L v) m)
        \<and> Call TxWait (Gave rc) \<in> set (events_of (handleTransfer L v) m)
        \<and> ev \<in> set (events_of (handleTransfer L v) m) \<and> failed ev
      \<longrightarrow> fst (handleTransfer L v m) = Inr ()
         \<and> recipient (after (handleTransfer L v) m) = []
         \<and> amount (after (handleTransfer L v) m) = []
         \<and> error (after (handleTransfer L v) m) = ''Failed to fetch balances''
         \<and> \<not> loading (after (handleTransfer L v) m))"
proof (intro conjI impI)
  show "fst (fetchBalances L v m0) = Inr ()" by (simp add: fetchBalances_eq)
next
  note reach = transfer_reaches_success_run[OF run_of[of "handleTransfer L v" m], folded events_of_def]
  assume g: "guards_pass v m \<and> fetch_guard v
        \<and> replies m = Gave bp ## Gave sg ## Gave d ## Gave a ## Gave tx ## Gave rc ## rest
        \<and> reads_fail L rest"
  from g show "Call (ContractTransfer (recipient m) a) (Gave tx) \<in> set (events_of (handleTransfer L v) m)"
    by (intro reach(1)) simp_all
  from g show "Call TxWait (Gave rc) \<in> set (events_of (handleTransfer L v) m)"
    by (intro reach(2)) simp_all
  from g have "guards_pass v m"
    and "replies m = Gave bp ## Gave sg ## Gave d ## Gave a ## Gave tx ## Gave rc ## rest"
    and "fetch_guard v" and "reads_fail L rest"
    by simp_all
  then show "\<exists>ev' \<in> set (events_of (handleTransfer L v) m). failed ev'"
    by (rule reach(4))
next
  assume h: "Call (ContractTransfer rcp a) (Gave tx) \<in> set (events_of (handleTransfer L v) m)
        \<and> Call TxWait (Gave rc) \<in> set (events_of (handleTransfer L v) m)
        \<and> ev \<in> set (events_of (handleTransfer L v) m) \<and> failed ev"
  then have h1: "Call (ContractTransfer rcp a) (Gave tx)
        \<in> set (drop (length (trace m)) (trace (after (handleTransfer L v) m)))"
    and h2: "Call TxWait (Gave rc) \<in> set (drop (length (trace m)) (trace (after (handleTransfer L v) m)))"
    and h3: "ev \<in> set (drop (length (trace m)) (trace (after (handleTransfer L v) m)))"
    and h4: "failed ev"
    by (simp_all add: events_of_def)
  from transfer_success_run[OF run_of h1 h2] h3 h4
  have r: "recipient (after (handleTransfer L v) m) = []"
    "amount (after (handleTransfer L v) m) = []"
    "\<not> loading (after (handleTransfer L v) m)"
    "error (after (handleTransfer L v) m) = ''Failed to fetch balances''"
    by blast+
  show "fst (handleTransfer L v m) = Inr ()" by (rule handleTransfer_result)
  from r show "recipient (after (handleTransfer L v) m) = []" by simp
  from r show "amount (after (handleTransfer L v) m) = []" by simp
  from r show "error (after (handleTransfer L v) m) = ''Failed to fetch balances''" by simp
  from r show "\<not> loading (after (handleTransfer L v) m)" by simp
qed

theorem refresh_failure_after_transfer_witness:
  "guards_pass (W3mApp w3m_session) (filled (transfer_confirmed decimals_unreachable))
   \<and> fetch_guard (W3mApp w3m_session)
   \<and> replies (filled (transfer_confirmed decimals_unreachable))
       = Gave 0 ## Gave 0 ## Gave 18 ## Gave 1000000000000000000 ## Gave 0 ## Gave 0 ## decimals_unreachable
   \<and> reads_fail ethers_v6 decimals_unreachable
   \<and> Call (ContractTransfer ''0x000000000000000000000000000000000000dEaD'' 1000000000000000000) (Gave 0)
     \<in> set (events_of (handleTransfer ethers_v6 (W3mApp w3m_session)) (filled (transfer_confirmed decimals_unreachable)))
   \<and> Call TxWait (Gave 0)
     \<in> set (events_of (handleTransfer ethers_v6 (W3mApp w3m_session)) (filled (transfer_confirmed decimals_unreachable)))
   \<and> Call ContractDecimals (Threw network_error)
     \<in> set (events_of (handleTransfer ethers_v6 (W3mApp w3m_session)) (filled (transfer_confirmed decimals_unreachable)))
   \<and> failed (Call ContractDecimals (Threw network_error))
   \<and> fst (fetchBalances ethers_v6 (W3mApp w3m_session) (initial decimals_unreachable)) = Inr ()
   \<and> fst (handleTransfer ethers_v6 (W3mApp w3m_session) (filled (transfer_confirmed decimals_unreachable))) = Inr ()
   \<and> recipient (after (handleTransfer ethers_v6 (W3mApp w3m_session)) (filled (transfer_confirmed decimals_unreachable))) = []
   \<and> amount (after (handleTransfer ethers_v6 (W3mApp w3m_session)) (filled (transfer_confirmed decimals_unreachable))) = []
   \<and> error (after (handleTransfer ethers_v6 (W3mApp w3m_session)) (filled (transfer_confirmed decimals_unreachable)))
       = ''Failed to fetch balances''
   \<and> \<not> loading (after (handleTransfer ethers_v6 (W3mApp w3m_session)) (filled (transfer_confirmed decimals_unreachable)))
   \<and> guards_pass (SdkApp sdk_session) (filled (transfer_confirmed decimals_unreachable))
   \<and> fetch_guard (SdkApp sdk_session)
   \<and> Call (ContractTransfer ''0x000000000000000000000000000000000000dEaD'' 1000000000000000000) (Gave 0)
     \<in> set (events_of (handleTransfer ethers_v6 (SdkApp sdk_session)) (filled (transfer_confirmed decimals_unreachable)))
   \<and> Call TxWait (Gave 0)
     \<in> set (events_of (handleTransfer ethers_v6 (SdkApp sdk_session)) (filled (transfer_confirmed decimals_unreachable)))
   \<and> Call ContractDecimals (Threw network_error)
     \<in> set (events_of (handleTransfer ethers_v6 (SdkApp sdk_session)) (filled (transfer_confirmed decimals_unreachable)))
   \<and> fst (handleTransfer ethers_v6 (SdkApp sdk_session) (filled (transfer_confirmed decimals_unreachable))) = Inr ()
   \<and> recipient (after (handleTransfer ethers_v6 (SdkApp sdk_session)) (filled (transfer_confirmed decimals_unreachable))) = []
   \<and> amount (after (handleTransfer ethers_v6 (SdkApp sdk_session)) (filled (transfer_confirmed decimals_unreachable))) = []
   \<and> error (after (handleTransfer ethers_v6 (SdkApp sdk_session)) (filled (transfer_confirmed decimals_unreachable)))
       = ''Failed to fetch balances''
   \<and> \<not> loading (after (handleTransfer ethers_v6 (SdkApp sdk_session)) (filled (transfer_confirmed decimals_unreachable)))"
proof -
  let ?m = "filled (transfer_confirmed decimals_unreachable)"
  let ?w = "W3mApp w3m_session"
  let ?s = "SdkApp sdk_session"
  let ?to = "''0x000000000000000000000000000000000000dEaD''"
  let ?ev = "Call ContractDecimals (Threw network_error)"
  have gw: "guards_pass ?w ?m" by (simp add: filled_def initial_def w3m_session_def)
  have gs: "guards_pass ?s ?m" by (simp add: filled_def initial_def)
  have fw: "fetch_guard ?w" by (simp add: w3m_session_def)
  have fs: "fetch_guard ?s" by (simp add: sdk_session_def)
  have rp: "replies ?m
       = Gave 0 ## Gave 0 ## Gave 18 ## Gave 1000000000000000000 ## Gave 0 ## Gave 0 ## decimals_unreachable"
    by (simp add: filled_def initial_def transfer_confirmed_def)
  have rf: "reads_fail ethers_v6 decimals_unreachable"
    by (simp add: reads_fail_def decimals_unreachable_def format_samples)
  have rcp: "recipient ?m = ?to" by (simp add: filled_def initial_def)
  have fl: "failed ?ev" by simp
  have w3: "?ev \<in> set (events_of (handleTransfer ethers_v6 ?w) ?m)"
    by (simp add: run_reading confirmed_transfer_w3m broken_refresh_w3m)
  have s3: "?ev \<in> set (events_of (handleTransfer ethers_v6 ?s) ?m)"
    by (simp add: run_reading confirmed_transfer broken_refresh)
  note w = refresh_failure_after_transfer[where v = "?w" and m = "?m" and L = ethers_v6
      and ?m0.0 = "initial decimals_unreachable"
      and bp = 0 and sg = 0 and d = 18 and a = 1000000000000000000 and tx = 0 and rc = 0
      and rest = decimals_unreachable and rcp = "?to" and ev = "?ev"]
  note s = refresh_failure_after_transfer[where v = "?s" and m = "?m" and L = ethers_v6
      and bp = 0 and sg = 0 and d = 18 and a = 1000000000000000000 and tx = 0 and rc = 0
      and rest = decimals_unreachable and rcp = "?to" and ev = "?ev"]
  from w have w0: "fst (fetchBalances ethers_v6 ?w (initial decimals_unreachable)) = Inr ()"
    by (rule conjunct1)
  from w gw fw rp rf rcp
  have w1: "Call (ContractTransfer ?to 1000000000000000000) (Gave 0)
       \<in> set (events_of (handleTransfer ethers_v6 ?w) ?m)"
    and w2: "Call TxWait (Gave 0) \<in> set (events_of (handleTransfer ethers_v6 ?w) ?m)"
    by simp_all
  from s gs fs rp rf rcp
  have s1: "Call (ContractTransfer ?to 1000000000000000000) (Gave 0)
       \<in> set (events_of (handleTransfer ethers_v6 ?s) ?m)"
    and s2: "Call TxWait (Gave 0) \<in> set (events_of (handleTransfer ethers_v6 ?s) ?m)"
    by simp_all
  from w w1 w2 w3 fl
  have w4: "fst (handleTransfer ethers_v6 ?w ?m) = Inr ()
     \<and> recipient (after (handleTransfer ethers_v6 ?w) ?m) = []
     \<and> amount (after (handleTransfer ethers_v6 ?w) ?m) = []
     \<and> error (after (handleTransfer ethers_v6 ?w) ?m) = ''Failed to fetch balances''
     \<and> \<not> loading (after (handleTransfer ethers_v6 ?w) ?m)"
    by blast
  from s s1 s2 s3 fl
  have s4: "fst (handleTransfer ethers_v6 ?s ?m) = Inr ()
     \<and> recipient (after (handleTransfer ethers_v6 ?s) ?m) = []
     \<and> amount (after (handleTransfer ethers_v6 ?s) ?m) = []
     \<and> error (after (handleTransfer ethers_v6 ?s) ?m) = ''Failed to fetch balances''
     \<and> \<not> loading (after (handleTransfer ethers_v6 ?s) ?m)"
    by blast
  from gw fw rp rf w1 w2 w3 fl w0 w4 gs fs s1 s2 s3 s4 show ?thesis by (intro conjI) simp_all
qed

section \<open>Balance fetch\<close>

text \<open>
  Claim C4, as stated, fails: it says that a failed chain read of \<^verbatim>\<open>fetchBalances\<close>
  leaves both stored balances as they were. \<^verbatim>\<open>setBnbBalance\<close> runs right after the
  native read, before the token reads. With a native balance of \<open>10^18\<close> base units read
  and \<^verbatim>\<open>decimals()\<close> then throwing, the stored native balance has changed from
  \<^verbatim>\<open>0\<close> to \<^verbatim>\<open>1.0\<close>.
\<close>

theorem fetchBalances_partial_update:
  "Call ContractDecimals (Threw network_error)
     \<in> set (events_of (fetchBalances ethers_v6 (SdkApp sdk_session)) (initial decimals_unreachable))
   \<and> chain_read ContractDecimals
   \<and> error (after (fetchBalances ethers_v6 (SdkApp sdk_session)) (initial decimals_unreachable))
       = ''Failed to fetch balances''
   \<and> bnbBalance (initial decimals_unreachable) = ''0''
   \<and> bnbBalance (after (fetchBalances ethers_v6 (SdkApp sdk_session)) (initial decimals_unreachable)) = ''1.0''"
  by (simp add: run_reading broken_refresh)

text \<open>
  Claim C4, amended. When a chain read of \<^verbatim>\<open>fetchBalances\<close> fails, the error slot is
  set to \<^verbatim>\<open>Failed to fetch balances\<close> and the stored token balance is left as it was.
  The stored native balance is left as it was when the failed read is the native read;
  when a token read fails, the native read has succeeded before and the stored native
  balance is the formatted value of that read.
\<close>

theorem fetchBalances_failed_read:
  assumes "Call c (Threw e) \<in> set (events_of (fetchBalances L v) m)" and "chain_read c"
  shows "error (after (fetchBalances L v) m) = ''Failed to fetch balances''
       \<and> usdtBalance (after (fetchBalances L v) m) = usdtBalance m
       \<and> (if native_read c then bnbBalance (after (fetchBalances L v) m) = bnbBalance m
           else map (formatEther L) (native_values (events_of (fetchBalances L v) m))
                  = [Inr (bnbBalance (after (fetchBalances L v) m))])"
proof -
  from assms(1) have h: "Call c (Threw e)
      \<in> set (drop (length (trace m)) (trace (after (fetchBalances L v) m)))"
    by (simp add: events_of_def)
  from fetch_failed_read_run[OF run_of h assms(2)] show ?thesis by (simp add: events_of_def)
qed

theorem fetchBalances_failed_read_witness:
  "Call ContractDecimals (Threw network_error)
     \<in> set (events_of (fetchBalances ethers_v6 (SdkApp sdk_session)) (initial decimals_unreachable))
   \<and> chain_read ContractDecimals
   \<and> error (after (fetchBalances ethers_v6 (SdkApp sdk_session)) (initial decimals_unreachable))
       = ''Failed to fetch balances''
   \<and> usdtBalance (after (fetchBalances ethers_v6 (SdkApp sdk_session)) (initial decimals_unreachable)) = ''0''
   \<and> map (formatEther ethers_v6)
        (native_values (events_of (fetchBalances ethers_v6 (SdkApp sdk_session)) (initial decimals_unreachable)))
       = [Inr (bnbBalance (after (fetchBalances ethers_v6 (SdkApp sdk_session)) (initial decimals_unreachable)))]"
proof -
  have h1: "Call ContractDecimals (Threw network_error)
     \<in> set (events_of (fetchBalances ethers_v6 (SdkApp sdk_session)) (initial decimals_unreachable))"
    by (simp add: run_reading broken_refresh)
  have h2: "chain_read ContractDecimals" by simp
  from fetchBalances_failed_read[OF h1 h2] h1 h2 show ?thesis by (simp add: initial_def)
qed

section \<open>Chain switch\<close>

text \<open>
  Claim C5. In every execution of \<^verbatim>\<open>switchToBNBChain\<close> in which the switch request
  fails with an error whose code is 4902, exactly one \<^verbatim>\<open>wallet_addEthereumChain\<close>
  request is issued, and it carries the fixed descriptor: chain id \<^verbatim>\<open>0x38\<close>, chain name
  \<^verbatim>\<open>BNB Smart Chain\<close>, native currency BNB with 18 decimals, one RPC URL and one explorer
  URL. Such executions exist in both variants: with a provider handle present, an error
  answered to the first request is the failure of the switch request for chain \<^verbatim>\<open>0x38\<close>.
\<close>

theorem switchToBNBChain_registers_bsc:
  "(app_provider v = Some p \<and> replies m = Threw e ## rest
      \<longrightarrow> Call (ProviderRequest (wallet_switchEthereumChain ''0x38'')) (Threw e)
            \<in> set (events_of (switchToBNBChain v) m))
   \<and> (Call (ProviderRequest (wallet_switchEthereumChain cid)) (Threw e)
             \<in> set (events_of (switchToBNBChain v) m)
        \<and> code e = Some 4902
      \<longrightarrow> add_requests (events_of (switchToBNBChain v) m) = [bsc_params])
   \<and> chainId bsc_params = ''0x38''
   \<and> chainName bsc_params = ''BNB Smart Chain''
   \<and> nativeCurrency bsc_params = \<lparr>name = ''BNB'', symbol = ''BNB'', decimals = 18\<rparr>
   \<and> length (rpcUrls bsc_params) = 1
   \<and> length (blockExplorerUrls bsc_params) = 1"
proof (intro conjI impI)
  note reach = switch_reaches_run[OF run_of[of "switchToBNBChain v" m], folded events_of_def]
  assume "app_provider v = Some p \<and> replies m = Threw e ## rest"
  then show "Call (ProviderRequest (wallet_switchEthereumChain ''0x38'')) (Threw e)
            \<in> set (events_of (switchToBNBChain v) m)"
    by (intro reach(1)[of p]) simp_all
next
  assume h: "Call (ProviderRequest (wallet_switchEthereumChain cid)) (Threw e)
             \<in> set (events_of (switchToBNBChain v) m)
        \<and> code e = Some 4902"
  then have h1: "Call (ProviderRequest (wallet_switchEthereumChain cid)) (Threw e)
      \<in> set (drop (length (trace m)) (trace (after (switchToBNBChain v) m)))"
    and h2: "code e = Some 4902"
    by (simp_all add: events_of_def)
  from switch_run(3)[OF run_of h1 h2] show "add_requests (events_of (switchToBNBChain v) m) = [bsc_params]"
    by (simp add: events_of_def)
qed (simp_all add: bsc_params_def)

theorem switchToBNBChain_registers_bsc_witness:
  "app_provider (W3mApp w3m_session) = Some 1
   \<and> replies (initial (Threw unknown_chain ## Gave 0 ## sconst (Gave 0)))
       = Threw unknown_chain ## Gave 0 ## sconst (Gave 0)
   \<and> code unknown_chain = Some 4902
   \<and> Call (ProviderRequest (wallet_switchEthereumChain ''0x38'')) (Threw unknown_chain)
     \<in> set (events_of (switchToBNBChain (W3mApp w3m_session))
              (initial (Threw unknown_chain ## Gave 0 ## sconst (Gave 0))))
   \<and> add_requests (events_of (switchToBNBChain (W3mApp w3m_session))
                     (initial (Threw unknown_chain ## Gave 0 ## sconst (Gave 0)))) = [bsc_params]
   \<and> app_provider (SdkApp sdk_session) = Some 1
   \<and> Call (ProviderRequest (wallet_switchEthereumChain ''0x38'')) (Threw unknown_chain)
     \<in> set (events_of (switchToBNBChain (SdkApp sdk_session))
              (initial (Threw unknown_chain ## Gave 0 ## sconst (Gave 0))))
   \<and> add_requests (events_of (switchToBNBChain (SdkApp sdk_session))
                     (initial (Threw unknown_chain ## Gave 0 ## sconst (Gave 0)))) = [bsc_params]
   \<and> chainId bsc_params = ''0x38''"
proof -
  let ?m = "initial (Threw unknown_chain ## Gave 0 ## sconst (Gave 0))"
  let ?w = "W3mApp w3m_session"
  let ?s = "SdkApp sdk_session"
  have pw: "app_provider ?w = Some 1" by (simp add: w3m_session_def)
  have ps: "app_provider ?s = Some 1" by (simp add: sdk_session_def)
  have rp: "replies ?m = Threw unknown_chain ## Gave 0 ## sconst (Gave 0)" by (simp add: initial_def)
  have cd: "code unknown_chain = Some 4902" by (simp add: unknown_chain_def)
  note w = switchToBNBChain_registers_bsc[where v = "?w" and m = "?m" and p = 1 and e = unknown_chain
      and rest = "Gave 0 ## sconst (Gave 0)" and cid = "''0x38''"]
  note s = switchToBNBChain_registers_bsc[where v = "?s" and m = "?m" and p = 1 and e = unknown_chain
      and rest = "Gave 0 ## sconst (Gave 0)" and cid = "''0x38''"]
  from w pw rp
  have w1: "Call (ProviderRequest (wallet_switchEthereumChain ''0x38'')) (Threw unknown_chain)
     \<in> set (events_of (switchToBNBChain ?w) ?m)"
    by simp
  from s ps rp
  have s1: "Call (ProviderRequest (wallet_switchEthereumChain ''0x38'')) (Threw unknown_chain)
     \<in> set (events_of (switchToBNBChain ?s) ?m)"
    by simp
  from w w1 cd have w2: "add_requests (events_of (switchToBNBChain ?w) ?m) = [bsc_params]" by blast
  from s s1 cd have s2: "add_requests (events_of (switchToBNBChain ?s) ?m) = [bsc_params]" by blast
  from w have id: "chainId bsc_params = ''0x38''" by blast
  from pw rp cd w1 w2 ps s1 s2 id show ?thesis by (intro conjI)
qed

section \<open>The provider guard of the transfer submission\<close>

text \<open>
  Claim C6 holds in the Web3Modal variant and fails in the SDK variant, whose
  \<^verbatim>\<open>handleTransfer\<close> has no test of \<^verbatim>\<open>provider\<close>, although its \<^verbatim>\<open>fetchBalances\<close> and
  \<^verbatim>\<open>switchToBNBChain\<close> both allow for an absent handle. With the form filled in and the
  provider absent, the SDK variant sets the loading flag, clears the error slot and
  constructs a \<^verbatim>\<open>BrowserProvider\<close> on the absent handle; the error slot then holds the
  library's message. On the same input the Web3Modal variant stores its validation
  message and stops.
\<close>

theorem handleTransfer_sdk_constructs_without_provider:
  "handleTransfer ethers_v6 (SdkApp (sdk_session\<lparr>provider := None\<rparr>))
       (filled (Threw invalid_provider ## sconst (Gave 0))) =
     (Inr (), (filled (Threw invalid_provider ## sconst (Gave 0)))
        \<lparr>loading := False, error := ''invalid EIP-1193 provider'',
         trace := [Enter HandleTransfer, SetLoading True, SetError [],
                   Call (NewBrowserProvider None) (Threw invalid_provider),
                   SetError ''invalid EIP-1193 provider'', SetLoading False],
         replies := sconst (Gave 0)\<rparr>)
   \<and> handleTransfer ethers_v6 (W3mApp (w3m_session\<lparr>walletProvider := None\<rparr>))
       (filled (Threw invalid_provider ## sconst (Gave 0))) =
     (Inr (), (filled (Threw invalid_provider ## sconst (Gave 0)))
        \<lparr>error := ''Please connect your wallet'',
         trace := [Enter HandleTransfer, SetError ''Please connect your wallet'']\<rparr>)"
  by (simp add: run_reading unready_transfer unready_transfer_w3m)

section \<open>The loading flag\<close>

text \<open>
  Claim C8. The submit button is the only place that refers to \<^verbatim>\<open>handleTransfer\<close>
  (b.js lines 205, 446) and it is disabled while the loading flag is true. An attempt that
  has passed the guards sets the flag before its first outside call and resets it in its
  \<^verbatim>\<open>finally\<close> block. So whenever an attempt is suspended at an outside call, be it the
  signer request, the transfer, the wait for the confirmation or a read of the refresh,
  the component is rendered with the flag true, and a click on the button starts nothing:
  it adds no event, so nothing reaches the signer or the contract, and leaves the state as
  it is. Every attempt that passes the guards and gets as far as the transfer is suspended
  in this way, in both variants, and has the flag false once it is over. The intermediate
  states are those of the execution: rendering all events of an attempt gives the machine
  the attempt leaves.
\<close>

theorem transferButton_disabled_while_outstanding:
  "(guards_pass v m \<and> replies m = Gave bp ## Gave sg ## Gave d ## Gave a ## r5 ## rest
      \<longrightarrow> prefix [Enter HandleTransfer, SetLoading True, SetError [],
                   Call (NewBrowserProvider (app_provider v)) (Gave bp), Call GetSigner (Gave sg),
                   Call ContractDecimals (Gave d), Call (ParseUnits (amount m) d) (Gave a),
                   Call (ContractTransfer (recipient m) a) r5]
            (events_of (handleTransfer L v) m))
   \<and> (prefix (pre @ [Call c r]) (events_of (handleTransfer L v) m)
      \<longrightarrow> loading (rendered pre m)
         \<and> transferButton_click L v (rendered pre m) = (Inr (), rendered pre m)
         \<and> events_of (transferButton_click L v) (rendered pre m) = [])
   \<and> (guards_pass v m \<longrightarrow> \<not> loading (after (handleTransfer L v) m))
   \<and> rendered (events_of (handleTransfer L v) m) m = after (handleTransfer L v) m"
proof (intro conjI impI)
  show "rendered (events_of (handleTransfer L v) m) m = after (handleTransfer L v) m"
    by (rule rendered_handleTransfer)
next
  note reach = transfer_reaches_call_run[OF run_of[of "handleTransfer L v" m], folded events_of_def]
  assume "guards_pass v m \<and> replies m = Gave bp ## Gave sg ## Gave d ## Gave a ## r5 ## rest"
  then have "guards_pass v m" and "replies m = Gave bp ## Gave sg ## Gave d ## Gave a ## r5 ## rest"
    by simp_all
  then show "prefix [Enter HandleTransfer, SetLoading True, SetError [],
                   Call (NewBrowserProvider (app_provider v)) (Gave bp), Call GetSigner (Gave sg),
                   Call ContractDecimals (Gave d), Call (ParseUnits (amount m) d) (Gave a),
                   Call (ContractTransfer (recipient m) a) r5]
            (events_of (handleTransfer L v) m)"
    by (rule reach)
next
  assume "guards_pass v m"
  then show "\<not> loading (after (handleTransfer L v) m)"
    by (rule transfer_guarded_start_run(2)[OF run_of])
next
  assume "prefix (pre @ [Call c r]) (events_of (handleTransfer L v) m)"
  then obtain post where ev: "events_of (handleTransfer L v) m = pre @ Call c r # post"
    by (auto simp: prefix_def)
  have "calls_while_loading (loading m) (events_of (handleTransfer L v) m)"
    by (rule transfer_calls_while_loading_run[OF run_of[of "handleTransfer L v" m], folded events_of_def])
  with ev have "calls_while_loading (loading m) (pre @ Call c r # post)" by simp
  then have l: "loading (rendered pre m)"
    unfolding rendered_def by (rule suspended_while_loading)
  then show "loading (rendered pre m)" .
  from l show "transferButton_click L v (rendered pre m) = (Inr (), rendered pre m)"
    by (simp add: transferButton_click_def ret_def)
  from l show "events_of (transferButton_click L v) (rendered pre m) = []"
    by (simp add: transferButton_click_def ret_def events_of_def after_def)
qed

theorem transferButton_disabled_while_outstanding_witness:
  "guards_pass (W3mApp w3m_session) (filled (transfer_confirmed healthy_reads))
   \<and> replies (filled (transfer_confirmed healthy_reads))
       = Gave 0 ## Gave 0 ## Gave 18 ## Gave 1000000000000000000 ## Gave 0 ## Gave 0 ## healthy_reads
   \<and> prefix ([Enter HandleTransfer, SetLoading True, SetError [],
               Call (NewBrowserProvider (Some 1)) (Gave 0), Call GetSigner (Gave 0),
               Call ContractDecimals (Gave 18), Call (ParseUnits ''1'' 18) (Gave 1000000000000000000)]
              @ [Call (ContractTransfer ''0x000000000000000000000000000000000000dEaD'' 1000000000000000000) (Gave 0)])
        (events_of (handleTransfer ethers_v6 (W3mApp w3m_session)) (filled (transfer_confirmed healthy_reads)))
   \<and> loading (rendered [Enter HandleTransfer, SetLoading True, SetError [],
               Call (NewBrowserProvider (Some 1)) (Gave 0), Call GetSigner (Gave 0),
               Call ContractDecimals (Gave 18), Call (ParseUnits ''1'' 18) (Gave 1000000000000000000)]
          (filled (transfer_confirmed healthy_reads)))
   \<and> events_of (transferButton_click ethers_v6 (W3mApp w3m_session))
        (rendered [Enter HandleTransfer, SetLoading True, SetError [],
               Call (NewBrowserProvider (Some 1)) (Gave 0), Call GetSigner (Gave 0),
               Call ContractDecimals (Gave 18), Call (ParseUnits ''1'' 18) (Gave 1000000000000000000)]
          (filled (transfer_confirmed healthy_reads))) = []
   \<and> \<not> loading (after (handleTransfer ethers_v6 (W3mApp w3m_session)) (filled (transfer_confirmed healthy_reads)))
   \<and> guards_pass (SdkApp sdk_session) (filled (transfer_confirmed healthy_reads))
   \<and> prefix ([Enter HandleTransfer, SetLoading True, SetError [],
               Call (NewBrowserProvider (Some 1)) (Gave 0), Call GetSigner (Gave 0),
               Call ContractDecimals (Gave 18), Call (ParseUnits ''1'' 18) (Gave 1000000000000000000)]
              @ [Call (ContractTransfer ''0x000000000000000000000000000000000000dEaD'' 1000000000000000000) (Gave 0)])
        (events_of (handleTransfer ethers_v6 (SdkApp sdk_session)) (filled (transfer_confirmed healthy_reads)))
   \<and> loading (rendered [Enter HandleTransfer, SetLoading True, SetError [],
               Call (NewBrowserProvider (Some 1)) (Gave 0), Call GetSigner (Gave 0),
               Call ContractDecimals (Gave 18), Call (ParseUnits ''1'' 18) (Gave 1000000000000000000)]
          (filled (transfer_confirmed healthy_reads)))
   \<and> events_of (transferButton_click ethers_v6 (SdkApp sdk_session))
        (rendered [Enter HandleTransfer, SetLoading True, SetError [],
               Call (NewBrowserProvider (Some 1)) (Gave 0), Call GetSigner (Gave 0),
               Call ContractDecimals (Gave 18), Call (ParseUnits ''1'' 18) (Gave 1000000000000000000)]
          (filled (transfer_confirmed healthy_reads))) = []
   \<and> \<not> loading (after (handleTransfer ethers_v6 (SdkApp sdk_session)) (filled (transfer_confirmed healthy_reads)))"
proof -
  let ?m = "filled (transfer_confirmed healthy_reads)"
  let ?w = "W3mApp w3m_session"
  let ?s = "SdkApp sdk_session"
  let ?pre = "[Enter HandleTransfer, SetLoading True, SetError [],
               Call (NewBrowserProvider (Some 1)) (Gave 0), Call GetSigner (Gave 0),
               Call ContractDecimals (Gave 18), Call (ParseUnits ''1'' 18) (Gave 1000000000000000000)]"
  let ?c = "ContractTransfer ''0x000000000000000000000000000000000000dEaD'' 1000000000000000000"
  have gw: "guards_pass ?w ?m" by (simp add: filled_def initial_def w3m_session_def)
  have gs: "guards_pass ?s ?m" by (simp add: filled_def initial_def)
  have rp: "replies ?m
       = Gave 0 ## Gave 0 ## Gave 18 ## Gave 1000000000000000000 ## Gave 0 ## Gave 0 ## healthy_reads"
    by (simp add: filled_def initial_def transfer_confirmed_def)
  have form: "recipient ?m = ''0x000000000000000000000000000000000000dEaD''" "amount ?m = ''1''"
    by (simp_all add: filled_def initial_def)
  have pw: "app_provider ?w = Some 1" by (simp add: w3m_session_def)
  have ps: "app_provider ?s = Some 1" by (simp add: sdk_session_def)
  note w = transferButton_disabled_while_outstanding[where v = "?w" and m = "?m" and L = ethers_v6
      and bp = 0 and sg = 0 and d = 18 and a = 1000000000000000000 and ?r5.0 = "Gave 0"
      and rest = "Gave 0 ## healthy_reads" and pre = "?pre" and c = "?c" and r = "Gave 0"]
  note s = transferButton_disabled_while_outstanding[where v = "?s" and m = "?m" and L = ethers_v6
      and bp = 0 and sg = 0 and d = 18 and a = 1000000000000000000 and ?r5.0 = "Gave 0"
      and rest = "Gave 0 ## healthy_reads" and pre = "?pre" and c = "?c" and r = "Gave 0"]
  from w gw rp form pw
  have w1: "prefix (?pre @ [Call ?c (Gave 0)]) (events_of (handleTransfer ethers_v6 ?w) ?m)"
    by simp
  from s gs rp form ps
  have s1: "prefix (?pre @ [Call ?c (Gave 0)]) (events_of (handleTransfer ethers_v6 ?s) ?m)"
    by simp
  from w w1 have w2: "loading (rendered ?pre ?m)
      \<and> events_of (transferButton_click ethers_v6 ?w) (rendered ?pre ?m) = []"
    by blast
  from s s1 have s2: "loading (rendered ?pre ?m)
      \<and> events_of (transferButton_click ethers_v6 ?s) (rendered ?pre ?m) = []"
    by blast
  from w gw have w3: "\<not> loading (after (handleTransfer ethers_v6 ?w) ?m)" by blast
  from s gs have s3: "\<not> loading (after (handleTransfer ethers_v6 ?s) ?m)" by blast
  from gw rp w1 w2 w3 gs s1 s2 s3 show ?thesis by (intro conjI) simp_all
qed

section \<open>The error slot\<close>

text \<open>
  Claim C7, as stated, fails: neither \<^verbatim>\<open>fetchBalances\<close> nor \<^verbatim>\<open>switchToBNBChain\<close>
  calls \<^verbatim>\<open>setError('')\<close>. A balance fetch that starts with an old message in the error
  slot and succeeds in every read leaves that message in the slot.
\<close>

theorem fetchBalances_keeps_stale_error:
  "error (stale_error healthy_reads) = ''Failed to switch network''
   \<and> filter failed (events_of (fetchBalances ethers_v6 (SdkApp sdk_session)) (stale_error healthy_reads)) = []
   \<and> SetError [] \<notin> set (events_of (fetchBalances ethers_v6 (SdkApp sdk_session)) (stale_error healthy_reads))
   \<and> error (after (fetchBalances ethers_v6 (SdkApp sdk_session)) (stale_error healthy_reads))
       = ''Failed to switch network''"
  by (simp add: run_reading healthy_refresh stale_error_def)

text \<open>
  Claim C7, amended. \<^verbatim>\<open>connect\<close> sets the error slot to the empty string before any
  outside call. \<^verbatim>\<open>handleTransfer\<close> does so once its guards have passed; when a guard
  fails it stores that guard's validation message and returns. \<^verbatim>\<open>switchToBNBChain\<close> and
  \<^verbatim>\<open>fetchBalances\<close> never set the slot to the empty string. A failure overwrites the
  slot: a failed \<^verbatim>\<open>sdk.connect\<close> and a failed step of the transfer with the thrown
  error's message, a failed switch request whose code is not 4902 with
  \<^verbatim>\<open>Failed to switch network\<close>, a failed registration request with
  \<^verbatim>\<open>Failed to add BSC network\<close>, and a failed step of a balance fetch (also of the one
  that follows a transfer) with \<^verbatim>\<open>Failed to fetch balances\<close>. Each of these failures
  is reached in both variants: the theorem says under which answers of the wallet the
  failed call is in the trace.
\<close>

theorem error_slot_discipline:
  "take 3 (events_of (connect_sdk h) mc) = [Enter Connect, SetLoading True, SetError []]
   \<and> (guards_pass v mt
        \<longrightarrow> take 3 (events_of (handleTransfer L v) mt) = [Enter HandleTransfer, SetLoading True, SetError []])
   \<and> (recipient mt = [] \<or> amount mt = []
        \<longrightarrow> events_of (handleTransfer L v) mt
              = [Enter HandleTransfer, SetError ''Please enter recipient address and amount''])
   \<and> (recipient mt \<noteq> [] \<and> amount mt \<noteq> [] \<and> \<not> guards_pass v mt
        \<longrightarrow> events_of (handleTransfer L v) mt = [Enter HandleTransfer, SetError ''Please connect your wallet''])
   \<and> SetError [] \<notin> set (events_of (switchToBNBChain v) ms)
   \<and> SetError [] \<notin> set (events_of (fetchBalances L v) mf)
   \<and> (Call SdkConnect (Threw e1) \<in> set (events_of (connect_sdk h) mc)
        \<longrightarrow> error (after (connect_sdk h) mc) = message e1)
   \<and> (Call (ProviderRequest (wallet_switchEthereumChain c2)) (Threw e2) \<in> set (events_of (connect_sdk h) mc)
        \<and> code e2 \<noteq> Some 4902
        \<longrightarrow> error (after (connect_sdk h) mc) = ''Failed to switch network'')
   \<and> (Call (ProviderRequest (wallet_addEthereumChain p3)) (Threw e3) \<in> set (events_of (connect_sdk h) mc)
        \<longrightarrow> error (after (connect_sdk h) mc) = ''Failed to add BSC network'')
   \<and> (app_provider v = Some ps \<and> replies ms = Threw e4 ## rs4
        \<longrightarrow> Call (ProviderRequest (wallet_switchEthereumChain ''0x38'')) (Threw e4) \<in> set (events_of (switchToBNBChain v) ms))
   \<and> (Call (ProviderRequest (wallet_switchEthereumChain c4)) (Threw e4) \<in> set (events_of (switchToBNBChain v) ms)
        \<and> code e4 \<noteq> Some 4902
        \<longrightarrow> error (after (switchToBNBChain v) ms) = ''Failed to switch network'')
   \<and> (app_provider v = Some ps \<and> replies ms = Threw e4 ## Threw e5 ## rs5 \<and> code e4 = Some 4902
        \<longrightarrow> Call (ProviderRequest (wallet_addEthereumChain bsc_params)) (Threw e5) \<in> set (events_of (switchToBNBChain v) ms))
   \<and> (Call (ProviderRequest (wallet_addEthereumChain p5)) (Threw e5) \<in> set (events_of (switchToBNBChain v) ms)
        \<longrightarrow> error (after (switchToBNBChain v) ms) = ''Failed to add BSC network'')
   \<and> (fetch_guard v \<and> reads_fail L (replies mf)
        \<longrightarrow> (\<exists>ev \<in> set (events_of (fetchBalances L v) mf). failed ev))
   \<and> (ev6 \<in> set (events_of (fetchBalances L v) mf) \<and> failed ev6
        \<longrightarrow> error (after (fetchBalances L v) mf) = ''Failed to fetch balances'')
   \<and> (guards_pass v mt
        \<and> replies mt = Gave bp ## Gave sg ## Gave d ## Gave a ## Threw e7 ## rs7
        \<longrightarrow> Call (ContractTransfer (recipient mt) a) (Threw e7) \<in> set (events_of (handleTransfer L v) mt)
            \<and> Enter FetchBalances \<notin> set (events_of (handleTransfer L v) mt))
   \<and> (Call c7 (Threw e7) \<in> set (events_of (handleTransfer L v) mt)
        \<and> Enter FetchBalances \<notin> set (events_of (handleTransfer L v) mt)
        \<longrightarrow> error (after (handleTransfer L v) mt) = message e7)
   \<and> (guards_pass v mt \<and> fetch_guard v
        \<and> replies mt = Gave bp ## Gave sg ## Gave d ## Gave a ## Gave tx ## Gave rc ## rs8
        \<and> reads_fail L rs8
        \<longrightarrow> Enter FetchBalances \<in> set (events_of (handleTransfer L v) mt)
            \<and> (\<exists>ev \<in> set (events_of (handleTransfer L v) mt). failed ev))
   \<and> (ev8 \<in> set (events_of (handleTransfer L v) mt) \<and> failed ev8
        \<and> Enter FetchBalances \<in> set (events_of (handleTransfer L v) mt)
        \<longrightarrow> error (after (handleTransfer L v) mt) = ''Failed to fetch balances'')"
proof -
  note c = connect_run[OF run_of[of "connect_sdk h" mc], folded events_of_def]
  note s = switch_run[OF run_of[of "switchToBNBChain v" ms], folded events_of_def]
  note sr = switch_reaches_run[OF run_of[of "switchToBNBChain v" ms], folded events_of_def]
  note t = transfer_overwrite_run[OF run_of[of "handleTransfer L v" mt], folded events_of_def]
  note ts = transfer_guarded_start_run[OF run_of[of "handleTransfer L v" mt], folded events_of_def]
  note tr = transfer_refused_run[OF run_of[of "handleTransfer L v" mt], folded events_of_def]
  note tf = transfer_reaches_failure_run[OF run_of[of "handleTransfer L v" mt], folded events_of_def]
  note tk = transfer_reaches_success_run[OF run_of[of "handleTransfer L v" mt], folded events_of_def]
  have "take 3 (events_of (connect_sdk h) mc) = [Enter Connect, SetLoading True, SetError []]"
    by (rule c(2))
  moreover have "guards_pass v mt
        \<longrightarrow> take 3 (events_of (handleTransfer L v) mt) = [Enter HandleTransfer, SetLoading True, SetError []]"
    using ts(1) by blast
  moreover have "recipient mt = [] \<or> amount mt = []
        \<longrightarrow> events_of (handleTransfer L v) mt
              = [Enter HandleTransfer, SetError ''Please enter recipient address and amount'']"
    using tr(1) by blast
  moreover have "recipient mt \<noteq> [] \<and> amount mt \<noteq> [] \<and> \<not> guards_pass v mt
        \<longrightarrow> events_of (handleTransfer L v) mt = [Enter HandleTransfer, SetError ''Please connect your wallet'']"
    using tr(2) by blast
  moreover have "SetError [] \<notin> set (events_of (switchToBNBChain v) ms)"
    by (rule s(2))
  moreover have "SetError [] \<notin> set (events_of (fetchBalances L v) mf)"
    by (simp add: fetch_events refresh_tail_excludes)
  moreover have "Call SdkConnect (Threw e1) \<in> set (events_of (connect_sdk h) mc)
        \<longrightarrow> error (after (connect_sdk h) mc) = message e1"
    using c(3) by blast
  moreover have "Call (ProviderRequest (wallet_switchEthereumChain c2)) (Threw e2) \<in> set (events_of (connect_sdk h) mc)
        \<and> code e2 \<noteq> Some 4902
        \<longrightarrow> error (after (connect_sdk h) mc) = ''Failed to switch network''"
    using c(4) by blast
  moreover have "Call (ProviderRequest (wallet_addEthereumChain p3)) (Threw e3) \<in> set (events_of (connect_sdk h) mc)
        \<longrightarrow> error (after (connect_sdk h) mc) = ''Failed to add BSC network''"
    using c(5) by blast
  moreover have "app_provider v = Some ps \<and> replies ms = Threw e4 ## rs4
        \<longrightarrow> Call (ProviderRequest (wallet_switchEthereumChain ''0x38'')) (Threw e4) \<in> set (events_of (switchToBNBChain v) ms)"
    using sr(1) by blast
  moreover have "Call (ProviderRequest (wallet_switchEthereumChain c4)) (Threw e4) \<in> set (events_of (switchToBNBChain v) ms)
        \<and> code e4 \<noteq> Some 4902
        \<longrightarrow> error (after (switchToBNBChain v) ms) = ''Failed to switch network''"
    using s(4) by blast
  moreover have "app_provider v = Some ps \<and> replies ms = Threw e4 ## Threw e5 ## rs5 \<and> code e4 = Some 4902
        \<longrightarrow> Call (ProviderRequest (wallet_addEthereumChain bsc_params)) (Threw e5) \<in> set (events_of (switchToBNBChain v) ms)"
    using sr(2) by blast
  moreover have "Call (ProviderRequest (wallet_addEthereumChain p5)) (Threw e5) \<in> set (events_of (switchToBNBChain v) ms)
        \<longrightarrow> error (after (switchToBNBChain v) ms) = ''Failed to add BSC network''"
    using s(5) by blast
  moreover have "fetch_guard v \<and> reads_fail L (replies mf)
        \<longrightarrow> (\<exists>ev \<in> set (events_of (fetchBalances L v) mf). failed ev)"
    using fetch_reaches_failure_events by blast
  moreover have "ev6 \<in> set (events_of (fetchBalances L v) mf) \<and> failed ev6
        \<longrightarrow> error (after (fetchBalances L v) mf) = ''Failed to fetch balances''"
    using fetch_overwrite by blast
  moreover have "guards_pass v mt
        \<and> replies mt = Gave bp ## Gave sg ## Gave d ## Gave a ## Threw e7 ## rs7
        \<longrightarrow> Call (ContractTransfer (recipient mt) a) (Threw e7) \<in> set (events_of (handleTransfer L v) mt)
            \<and> Enter FetchBalances \<notin> set (events_of (handleTransfer L v) mt)"
    using tf(1,3) by blast
  moreover have "Call c7 (Threw e7) \<in> set (events_of (handleTransfer L v) mt)
        \<and> Enter FetchBalances \<notin> set (events_of (handleTransfer L v) mt)
        \<longrightarrow> error (after (handleTransfer L v) mt) = message e7"
    using t(1) by blast
  moreover have "guards_pass v mt \<and> fetch_guard v
        \<and> replies mt = Gave bp ## Gave sg ## Gave d ## Gave a ## Gave tx ## Gave rc ## rs8
        \<and> reads_fail L rs8
        \<longrightarrow> Enter FetchBalances \<in> set (events_of (handleTransfer L v) mt)
            \<and> (\<exists>ev \<in> set (events_of (handleTransfer L v) mt). failed ev)"
    using tk(3,4) by blast
  moreover have "ev8 \<in> set (events_of (handleTransfer L v) mt) \<and> failed ev8
        \<and> Enter FetchBalances \<in> set (events_of (handleTransfer L v) mt)
        \<longrightarrow> error (after (handleTransfer L v) mt) = ''Failed to fetch balances''"
    using t(2) by blast
  ultimately show ?thesis by (intro conjI)
qed

theorem error_slot_discipline_witness:
  "code user_rejected \<noteq> Some 4902
   \<and> code unknown_chain = Some 4902
   \<and> failed (Call ContractDecimals (Threw network_error))
   \<and> reads_fail ethers_v6 decimals_unreachable
   \<and> replies (filled transfer_rejected) = Gave 0 ## Gave 0 ## Gave 18
       ## Gave 1000000000000000000 ## Threw user_rejected ## sconst (Gave 0)
   \<and> replies (filled (transfer_confirmed decimals_unreachable)) = Gave 0 ## Gave 0
       ## Gave 18 ## Gave 1000000000000000000 ## Gave 0 ## Gave 0 ## decimals_unreachable
   \<and> Call SdkConnect (Threw user_rejected) \<in> set
       (events_of (connect_sdk sdk_session) (initial (Threw user_rejected ## sconst (Gave 0))))
   \<and> Call (ProviderRequest (wallet_switchEthereumChain ''0x38'')) (Threw user_rejected)
       \<in> set (events_of (connect_sdk sdk_session) (initial (Gave 0 ## Threw user_rejected
       ## sconst (Gave 0))))
   \<and> Call (ProviderRequest (wallet_addEthereumChain bsc_params)) (Threw user_rejected)
       \<in> set (events_of (connect_sdk sdk_session) (initial (Gave 0 ## Threw unknown_chain
       ## Threw user_rejected ## sconst (Gave 0))))
   \<and> error (after (connect_sdk sdk_session) (initial (Threw user_rejected
       ## sconst (Gave 0)))) = ''user rejected action''
   \<and> error (after (connect_sdk sdk_session) (initial (Gave 0 ## Threw user_rejected
       ## sconst (Gave 0)))) = ''Failed to switch network''
   \<and> error (after (connect_sdk sdk_session) (initial (Gave 0 ## Threw unknown_chain
       ## Threw user_rejected ## sconst (Gave 0)))) = ''Failed to add BSC network''
   \<and> app_provider (W3mApp w3m_session) = Some 1
   \<and> fetch_guard (W3mApp w3m_session)
   \<and> guards_pass (W3mApp w3m_session) (filled transfer_rejected)
   \<and> guards_pass (W3mApp w3m_session) (filled (transfer_confirmed decimals_unreachable))
   \<and> SetError [] \<notin> set (events_of (switchToBNBChain (W3mApp w3m_session))
       (initial (Threw user_rejected ## sconst (Gave 0))))
   \<and> SetError [] \<notin> set
       (events_of (fetchBalances ethers_v6 (W3mApp w3m_session)) (initial decimals_unreachable))
   \<and> Call (ProviderRequest (wallet_switchEthereumChain ''0x38'')) (Threw user_rejected)
       \<in> set (events_of (switchToBNBChain (W3mApp w3m_session))
       (initial (Threw user_rejected ## sconst (Gave 0))))
   \<and> error (after (switchToBNBChain (W3mApp w3m_session)) (initial (Threw user_rejected
       ## sconst (Gave 0)))) = ''Failed to switch network''
   \<and> Call (ProviderRequest (wallet_addEthereumChain bsc_params)) (Threw user_rejected)
       \<in> set (events_of (switchToBNBChain (W3mApp w3m_session))
       (initial (Threw unknown_chain ## Threw user_rejected ## sconst (Gave 0))))
   \<and> error (after (switchToBNBChain (W3mApp w3m_session)) (initial (Threw unknown_chain
       ## Threw user_rejected ## sconst (Gave 0)))) = ''Failed to add BSC network''
   \<and> (\<exists>ev \<in> set (events_of (fetchBalances ethers_v6 (W3mApp w3m_session))
       (initial decimals_unreachable)). failed ev)
   \<and> Call ContractDecimals (Threw network_error) \<in> set
       (events_of (fetchBalances ethers_v6 (W3mApp w3m_session)) (initial decimals_unreachable))
   \<and> error (after (fetchBalances ethers_v6 (W3mApp w3m_session))
       (initial decimals_unreachable)) = ''Failed to fetch balances''
   \<and> take 3 (events_of (handleTransfer ethers_v6 (W3mApp w3m_session))
       (filled transfer_rejected)) = [Enter HandleTransfer, SetLoading True, SetError []]
   \<and> Call (ContractTransfer ''0x000000000000000000000000000000000000dEaD'' 1000000000000000000) (Threw user_rejected)
       \<in> set (events_of (handleTransfer ethers_v6 (W3mApp w3m_session))
       (filled transfer_rejected))
   \<and> Enter FetchBalances \<notin> set
       (events_of (handleTransfer ethers_v6 (W3mApp w3m_session)) (filled transfer_rejected))
   \<and> error (after (handleTransfer ethers_v6 (W3mApp w3m_session))
       (filled transfer_rejected)) = ''user rejected action''
   \<and> Enter FetchBalances \<in> set
       (events_of (handleTransfer ethers_v6 (W3mApp w3m_session))
       (filled (transfer_confirmed decimals_unreachable)))
   \<and> Call ContractDecimals (Threw network_error) \<in> set
       (events_of (handleTransfer ethers_v6 (W3mApp w3m_session))
       (filled (transfer_confirmed decimals_unreachable)))
   \<and> error (after (handleTransfer ethers_v6 (W3mApp w3m_session))
       (filled (transfer_confirmed decimals_unreachable))) = ''Failed to fetch balances''
   \<and> (recipient (initial healthy_reads) = [] \<or> amount (initial healthy_reads) = [])
   \<and> events_of (handleTransfer ethers_v6 (W3mApp w3m_session)) (initial healthy_reads)
       = [Enter HandleTransfer, SetError ''Please enter recipient address and amount'']
   \<and> app_provider (SdkApp sdk_session) = Some 1
   \<and> fetch_guard (SdkApp sdk_session)
   \<and> guards_pass (SdkApp sdk_session) (filled transfer_rejected)
   \<and> guards_pass (SdkApp sdk_session) (filled (transfer_confirmed decimals_unreachable))
   \<and> SetError [] \<notin> set (events_of (switchToBNBChain (SdkApp sdk_session))
       (initial (Threw user_rejected ## sconst (Gave 0))))
   \<and> SetError [] \<notin> set
       (events_of (fetchBalances ethers_v6 (SdkApp sdk_session)) (initial decimals_unreachable))
   \<and> Call (ProviderRequest (wallet_switchEthereumChain ''0x38'')) (Threw user_rejected)
       \<in> set (events_of (switchToBNBChain (SdkApp sdk_session))
       (initial (Threw user_rejected ## sconst (Gave 0))))
   \<and> error (after (switchToBNBChain (SdkApp sdk_session)) (initial (Threw user_rejected
       ## sconst (Gave 0)))) = ''Failed to switch network''
   \<and> Call (ProviderRequest (wallet_addEthereumChain bsc_params)) (Threw user_rejected)
       \<in> set (events_of (switchToBNBChain (SdkApp sdk_session))
       (initial (Threw unknown_chain ## Threw user_rejected ## sconst (Gave 0))))
   \<and> error (after (switchToBNBChain (SdkApp sdk_session)) (initial (Threw unknown_chain
       ## Threw user_rejected ## sconst (Gave 0)))) = ''Failed to add BSC network''
   \<and> (\<exists>ev \<in> set (events_of (fetchBalances ethers_v6 (SdkApp sdk_session))
       (initial decimals_unreachable)). failed ev)
   \<and> Call ContractDecimals (Threw network_error) \<in> set
       (events_of (fetchBalances ethers_v6 (SdkApp sdk_session)) (initial decimals_unreachable))
   \<and> error (after (fetchBalances ethers_v6 (SdkApp sdk_session))
       (initial decimals_unreachable)) = ''Failed to fetch balances''
   \<and> take 3 (events_of (handleTransfer ethers_v6 (SdkApp sdk_session))
       (filled transfer_rejected)) = [Enter HandleTransfer, SetLoading True, SetError []]
   \<and> Call (ContractTransfer ''0x000000000000000000000000000000000000dEaD'' 1000000000000000000) (Threw user_rejected)
       \<in> set (events_of (handleTransfer ethers_v6 (SdkApp sdk_session))
       (filled transfer_rejected))
   \<and> Enter FetchBalances \<notin> set
       (events_of (handleTransfer ethers_v6 (SdkApp sdk_session)) (filled transfer_rejected))
   \<and> error (after (handleTransfer ethers_v6 (SdkApp sdk_session))
       (filled transfer_rejected)) = ''user rejected action''
   \<and> Enter FetchBalances \<in> set
       (events_of (handleTransfer ethers_v6 (SdkApp sdk_session))
       (filled (transfer_confirmed decimals_unreachable)))
   \<and> Call ContractDecimals (Threw network_error) \<in> set
       (events_of (handleTransfer ethers_v6 (SdkApp sdk_session))
       (filled (transfer_confirmed decimals_unreachable)))
   \<and> error (after (handleTransfer ethers_v6 (SdkApp sdk_session))
       (filled (transfer_confirmed decimals_unreachable))) = ''Failed to fetch balances''
   \<and> events_of (handleTransfer ethers_v6 (SdkApp sdk_session)) (initial healthy_reads)
       = [Enter HandleTransfer, SetError ''Please enter recipient address and amount'']
   \<and> recipient (filled healthy_reads) \<noteq> []
   \<and> amount (filled healthy_reads) \<noteq> []
   \<and> \<not> guards_pass (W3mApp (w3m_session\<lparr>walletProvider := None\<rparr>))
       (filled healthy_reads)
   \<and> events_of (handleTransfer ethers_v6 (W3mApp (w3m_session\<lparr>walletProvider := None\<rparr>))) (filled healthy_reads)
       = [Enter HandleTransfer, SetError ''Please connect your wallet'']"
proof -
  let ?late_add_refused = "initial (Gave 0 ## Threw unknown_chain ## Threw user_rejected ## sconst (Gave 0))"
  let ?late_refused = "initial (Gave 0 ## Threw user_rejected ## sconst (Gave 0))"
  let ?add_refused = "initial (Threw unknown_chain ## Threw user_rejected ## sconst (Gave 0))"
  let ?refused = "initial (Threw user_rejected ## sconst (Gave 0))"
  let ?conf = "filled (transfer_confirmed decimals_unreachable)"
  let ?rej = "filled transfer_rejected"
  let ?unready = "W3mApp (w3m_session\<lparr>walletProvider := None\<rparr>)"
  let ?w = "W3mApp w3m_session"
  let ?s = "SdkApp sdk_session"
  let ?to = "''0x000000000000000000000000000000000000dEaD''"
  let ?ev = "Call ContractDecimals (Threw network_error)"
  note c1 = error_slot_discipline[where mc = "?refused"
      and ?e1.0 = "user_rejected"
      and h = "sdk_session"]
  note c2 = error_slot_discipline[where mc = "?late_refused"
      and ?c2.0 = "''0x38''"
      and ?e2.0 = "user_rejected"
      and h = "sdk_session"]
  note c3 = error_slot_discipline[where mc = "?late_add_refused"
      and ?p3.0 = "bsc_params"
      and ?e3.0 = "user_rejected"
      and h = "sdk_session"]
  note w1 = error_slot_discipline[where v = "?w"
      and L = "ethers_v6"
      and ms = "?refused"
      and ps = "1"
      and ?e4.0 = "user_rejected"
      and ?rs4.0 = "sconst (Gave 0)"
      and ?c4.0 = "''0x38''"
      and mf = "initial decimals_unreachable"
      and ?ev6.0 = "?ev"
      and mt = "?rej"
      and bp = "0"
      and sg = "0"
      and d = "18"
      and a = "1000000000000000000"
      and ?e7.0 = "user_rejected"
      and ?rs7.0 = "sconst (Gave 0)"
      and ?c7.0 = "ContractTransfer ?to 1000000000000000000"]
  note w2 = error_slot_discipline[where v = "?w"
      and L = "ethers_v6"
      and ms = "?add_refused"
      and ps = "1"
      and ?e4.0 = "unknown_chain"
      and ?e5.0 = "user_rejected"
      and ?rs5.0 = "sconst (Gave 0)"
      and ?p5.0 = "bsc_params"
      and mt = "?conf"
      and bp = "0"
      and sg = "0"
      and d = "18"
      and a = "1000000000000000000"
      and tx = "0"
      and rc = "0"
      and ?rs8.0 = "decimals_unreachable"
      and ?ev8.0 = "?ev"]
  note w3 = error_slot_discipline[where v = "?w"
      and L = "ethers_v6"
      and mt = "initial healthy_reads"]
  note s1 = error_slot_discipline[where v = "?s"
      and L = "ethers_v6"
      and ms = "?refused"
      and ps = "1"
      and ?e4.0 = "user_rejected"
      and ?rs4.0 = "sconst (Gave 0)"
      and ?c4.0 = "''0x38''"
      and mf = "initial decimals_unreachable"
      and ?ev6.0 = "?ev"
      and mt = "?rej"
      and bp = "0"
      and sg = "0"
      and d = "18"
      and a = "1000000000000000000"
      and ?e7.0 = "user_rejected"
      and ?rs7.0 = "sconst (Gave 0)"
      and ?c7.0 = "ContractTransfer ?to 1000000000000000000"]
  note s2 = error_slot_discipline[where v = "?s"
      and L = "ethers_v6"
      and ms = "?add_refused"
      and ps = "1"
      and ?e4.0 = "unknown_chain"
      and ?e5.0 = "user_rejected"
      and ?rs5.0 = "sconst (Gave 0)"
      and ?p5.0 = "bsc_params"
      and mt = "?conf"
      and bp = "0"
      and sg = "0"
      and d = "18"
      and a = "1000000000000000000"
      and tx = "0"
      and rc = "0"
      and ?rs8.0 = "decimals_unreachable"
      and ?ev8.0 = "?ev"]
  note s3 = error_slot_discipline[where v = "?s"
      and L = "ethers_v6"
      and mt = "initial healthy_reads"]
  note w4 = error_slot_discipline[where v = "?unready"
      and L = "ethers_v6"
      and mt = "filled healthy_reads"]
  have code: "code user_rejected \<noteq> Some 4902"
    by (simp add: user_rejected_def)
  have code': "code unknown_chain = Some 4902"
    by (simp add: unknown_chain_def)
  have fl: "failed ?ev"
    by simp
  have msg: "message user_rejected = ''user rejected action''"
    by (simp add: user_rejected_def)
  have rf: "reads_fail ethers_v6 decimals_unreachable"
    by (simp add: reads_fail_def decimals_unreachable_def format_samples)
  have rp_rej: "replies ?rej = Gave 0 ## Gave 0 ## Gave 18 ## Gave 1000000000000000000
        ## Threw user_rejected ## sconst (Gave 0)"
    by (simp add: filled_def initial_def transfer_rejected_def)
  have rp_conf: "replies ?conf = Gave 0 ## Gave 0 ## Gave 18 ## Gave 1000000000000000000
        ## Gave 0 ## Gave 0 ## decimals_unreachable"
    by (simp add: filled_def initial_def transfer_confirmed_def)
  have rp_ref: "replies ?refused = Threw user_rejected ## sconst (Gave 0)"
    by (simp add: initial_def)
  have rp_add: "replies ?add_refused = Threw unknown_chain ## Threw user_rejected
        ## sconst (Gave 0)"
    by (simp add: initial_def)
  have rp_brk: "replies (initial decimals_unreachable) = decimals_unreachable"
    by (simp add: initial_def)
  have form: "recipient ?rej = ?to"
    by (simp add: filled_def initial_def)
  have form': "recipient ?conf = ?to"
    by (simp add: filled_def initial_def)
  have a1: "Call SdkConnect (Threw user_rejected) \<in> set
        (events_of (connect_sdk sdk_session) ?refused)"
    by (simp add: run_reading confirmed_transfer broken_refresh rejected_transfer unknown_chain_switch
          refused_switch refused_connect connect_then_switch)
  have a2: "Call (ProviderRequest (wallet_switchEthereumChain ''0x38'')) (Threw user_rejected)
        \<in> set (events_of (connect_sdk sdk_session) ?late_refused)"
    by (simp add: run_reading confirmed_transfer broken_refresh rejected_transfer unknown_chain_switch
          refused_switch refused_connect connect_then_switch)
  have a3: "Call (ProviderRequest (wallet_addEthereumChain bsc_params)) (Threw user_rejected)
        \<in> set (events_of (connect_sdk sdk_session) ?late_add_refused)"
    by (simp add: run_reading confirmed_transfer broken_refresh rejected_transfer unknown_chain_switch
          refused_switch refused_connect connect_then_switch)
  have b1: "error (after (connect_sdk sdk_session) ?refused) = ''user rejected action''"
    using c1[THEN conjunct2, THEN conjunct2, THEN conjunct2, THEN conjunct2, THEN conjunct2, THEN conjunct2, THEN conjunct1, THEN mp, OF a1] msg by simp
  have b2: "error (after (connect_sdk sdk_session) ?late_refused) = ''Failed to switch network''"
    by (rule c2[THEN conjunct2, THEN conjunct2, THEN conjunct2, THEN conjunct2, THEN conjunct2, THEN conjunct2, THEN conjunct2, THEN conjunct1, THEN mp, OF conjI[OF a2 code]])
  have b3: "error (after (connect_sdk sdk_session) ?late_add_refused)
        = ''Failed to add BSC network''"
    by (rule c3[THEN conjunct2, THEN conjunct2, THEN conjunct2, THEN conjunct2, THEN conjunct2, THEN conjunct2, THEN conjunct2, THEN conjunct2, THEN conjunct1, THEN mp, OF a3])
  have pw: "app_provider ?w = Some 1"
    by (simp add: w3m_session_def)
  have fw: "fetch_guard ?w"
    by (simp add: w3m_session_def)
  have gw: "guards_pass ?w ?rej"
    by (simp add: filled_def initial_def w3m_session_def)
  have gw': "guards_pass ?w ?conf"
    by (simp add: filled_def initial_def w3m_session_def)
  have nw: "SetError [] \<notin> set (events_of (switchToBNBChain ?w) ?refused)"
    by (rule w1[THEN conjunct2, THEN conjunct2, THEN conjunct2, THEN conjunct2, THEN conjunct1])
  have nw': "SetError [] \<notin> set (events_of (fetchBalances ethers_v6 ?w)
        (initial decimals_unreachable))"
    by (rule w1[THEN conjunct2, THEN conjunct2, THEN conjunct2, THEN conjunct2, THEN conjunct2, THEN conjunct1])
  have a4w: "Call (ProviderRequest (wallet_switchEthereumChain ''0x38'')) (Threw user_rejected)
        \<in> set (events_of (switchToBNBChain ?w) ?refused)"
    by (rule w1[THEN conjunct2, THEN conjunct2, THEN conjunct2, THEN conjunct2, THEN conjunct2, THEN conjunct2, THEN conjunct2, THEN conjunct2, THEN conjunct2, THEN conjunct1, THEN mp, OF conjI[OF pw rp_ref]])
  have b4w: "error (after (switchToBNBChain ?w) ?refused) = ''Failed to switch network''"
    by (rule w1[THEN conjunct2, THEN conjunct2, THEN conjunct2, THEN conjunct2, THEN conjunct2, THEN conjunct2, THEN conjunct2, THEN conjunct2, THEN conjunct2, THEN conjunct2, THEN conjunct1, THEN mp, OF conjI[OF a4w code]])
  have a5w: "Call (ProviderRequest (wallet_addEthereumChain bsc_params)) (Threw user_rejected)
        \<in> set (events_of (switchToBNBChain ?w) ?add_refused)"
    by (rule w2[THEN conjunct2, THEN conjunct2, THEN conjunct2, THEN conjunct2, THEN conjunct2, THEN conjunct2, THEN conjunct2, THEN conjunct2, THEN conjunct2, THEN conjunct2, THEN conjunct2, THEN conjunct1, THEN mp, OF conjI[OF pw conjI[OF rp_add code']]])
  have b5w: "error (after (switchToBNBChain ?w) ?add_refused) = ''Failed to add BSC network''"
    by (rule w2[THEN conjunct2, THEN conjunct2, THEN conjunct2, THEN conjunct2, THEN conjunct2, THEN conjunct2, THEN conjunct2, THEN conjunct2, THEN conjunct2, THEN conjunct2, THEN conjunct2, THEN conjunct2, THEN conjunct1, THEN mp, OF a5w])
  have e6w: "\<exists>ev \<in> set (events_of (fetchBalances ethers_v6 ?w)
        (initial decimals_unreachable)). failed ev"
    using w1[THEN conjunct2, THEN conjunct2, THEN conjunct2, THEN conjunct2, THEN conjunct2, THEN conjunct2, THEN conjunct2, THEN conjunct2, THEN conjunct2, THEN conjunct2, THEN conjunct2, THEN conjunct2, THEN conjunct2, THEN conjunct1] fw rf rp_brk by simp
  have a6w: "?ev \<in> set (events_of (fetchBalances ethers_v6 ?w) (initial decimals_unreachable))"
    by (simp add: run_reading confirmed_transfer_w3m broken_refresh_w3m)
  have b6w: "error (after (fetchBalances ethers_v6 ?w) (initial decimals_unreachable))
        = ''Failed to fetch balances''"
    by (rule w1[THEN conjunct2, THEN conjunct2, THEN conjunct2, THEN conjunct2, THEN conjunct2, THEN conjunct2, THEN conjunct2, THEN conjunct2, THEN conjunct2, THEN conjunct2, THEN conjunct2, THEN conjunct2, THEN conjunct2, THEN conjunct2, THEN conjunct1, THEN mp, OF conjI[OF a6w fl]])
  have sw: "take 3 (events_of (handleTransfer ethers_v6 ?w) ?rej)
        = [Enter HandleTransfer, SetLoading True, SetError []]"
    by (rule w1[THEN conjunct2, THEN conjunct1, THEN mp, OF gw])
  have a7w: "Call (ContractTransfer ?to 1000000000000000000) (Threw user_rejected)
        \<in> set (events_of (handleTransfer ethers_v6 ?w) ?rej)
     \<and> Enter FetchBalances \<notin> set (events_of (handleTransfer ethers_v6 ?w) ?rej)"
    using w1[THEN conjunct2, THEN conjunct2, THEN conjunct2, THEN conjunct2, THEN conjunct2, THEN conjunct2, THEN conjunct2, THEN conjunct2, THEN conjunct2, THEN conjunct2, THEN conjunct2, THEN conjunct2, THEN conjunct2, THEN conjunct2, THEN conjunct2, THEN conjunct1, THEN mp, OF conjI[OF gw rp_rej]] form by simp
  have b7w: "error (after (handleTransfer ethers_v6 ?w) ?rej) = ''user rejected action''"
    using w1[THEN conjunct2, THEN conjunct2, THEN conjunct2, THEN conjunct2, THEN conjunct2, THEN conjunct2, THEN conjunct2, THEN conjunct2, THEN conjunct2, THEN conjunct2, THEN conjunct2, THEN conjunct2, THEN conjunct2, THEN conjunct2, THEN conjunct2, THEN conjunct2, THEN conjunct1] a7w msg by simp
  have a8w: "Enter FetchBalances \<in> set (events_of (handleTransfer ethers_v6 ?w) ?conf)"
    using w2[THEN conjunct2, THEN conjunct2, THEN conjunct2, THEN conjunct2, THEN conjunct2, THEN conjunct2, THEN conjunct2, THEN conjunct2, THEN conjunct2, THEN conjunct2, THEN conjunct2, THEN conjunct2, THEN conjunct2, THEN conjunct2, THEN conjunct2, THEN conjunct2, THEN conjunct2, THEN conjunct1, THEN mp, OF conjI[OF gw' conjI[OF fw conjI[OF rp_conf rf]]]] by simp
  have a8w': "?ev \<in> set (events_of (handleTransfer ethers_v6 ?w) ?conf)"
    by (simp add: run_reading confirmed_transfer_w3m broken_refresh_w3m)
  have b8w: "error (after (handleTransfer ethers_v6 ?w) ?conf) = ''Failed to fetch balances''"
    by (rule w2[THEN conjunct2, THEN conjunct2, THEN conjunct2, THEN conjunct2, THEN conjunct2, THEN conjunct2, THEN conjunct2, THEN conjunct2, THEN conjunct2, THEN conjunct2, THEN conjunct2, THEN conjunct2, THEN conjunct2, THEN conjunct2, THEN conjunct2, THEN conjunct2, THEN conjunct2, THEN conjunct2, THEN mp, OF conjI[OF a8w' conjI[OF fl a8w]]])
  have emw: "recipient (initial healthy_reads) = [] \<or> amount (initial healthy_reads) = []"
    by (simp add: initial_def)
  have r1w: "events_of (handleTransfer ethers_v6 ?w) (initial healthy_reads)
       = [Enter HandleTransfer, SetError ''Please enter recipient address and amount'']"
    by (rule w3[THEN conjunct2, THEN conjunct2, THEN conjunct1, THEN mp, OF emw])
  have ps: "app_provider ?s = Some 1"
    by (simp add: sdk_session_def)
  have fs: "fetch_guard ?s"
    by (simp add: sdk_session_def)
  have gs: "guards_pass ?s ?rej"
    by (simp add: filled_def initial_def sdk_session_def)
  have gs': "guards_pass ?s ?conf"
    by (simp add: filled_def initial_def sdk_session_def)
  have ns: "SetError [] \<notin> set (events_of (switchToBNBChain ?s) ?refused)"
    by (rule s1[THEN conjunct2, THEN conjunct2, THEN conjunct2, THEN conjunct2, THEN conjunct1])
  have ns': "SetError [] \<notin> set (events_of (fetchBalances ethers_v6 ?s)
        (initial decimals_unreachable))"
    by (rule s1[THEN conjunct2, THEN conjunct2, THEN conjunct2, THEN conjunct2, THEN conjunct2, THEN conjunct1])
  have a4s: "Call (ProviderRequest (wallet_switchEthereumChain ''0x38'')) (Threw user_rejected)
        \<in> set (events_of (switchToBNBChain ?s) ?refused)"
    by (rule s1[THEN conjunct2, THEN conjunct2, THEN conjunct2, THEN conjunct2, THEN conjunct2, THEN conjunct2, THEN conjunct2, THEN conjunct2, THEN conjunct2, THEN conjunct1, THEN mp, OF conjI[OF ps rp_ref]])
  have b4s: "error (after (switchToBNBChain ?s) ?refused) = ''Failed to switch network''"
    by (rule s1[THEN conjunct2, THEN conjunct2, THEN conjunct2, THEN conjunct2, THEN conjunct2, THEN conjunct2, THEN conjunct2, THEN conjunct2, THEN conjunct2, THEN conjunct2, THEN conjunct1, THEN mp, OF conjI[OF a4s code]])
  have a5s: "Call (ProviderRequest (wallet_addEthereumChain bsc_params)) (Threw user_rejected)
        \<in> set (events_of (switchToBNBChain ?s) ?add_refused)"
    by (rule s2[THEN conjunct2, THEN conjunct2, THEN conjunct2, THEN conjunct2, THEN conjunct2, THEN conjunct2, THEN conjunct2, THEN conjunct2, THEN conjunct2, THEN conjunct2, THEN conjunct2, THEN conjunct1, THEN mp, OF conjI[OF ps conjI[OF rp_add code']]])
  have b5s: "error (after (switchToBNBChain ?s) ?add_refused) = ''Failed to add BSC network''"
    by (rule s2[THEN conjunct2, THEN conjunct2, THEN conjunct2, THEN conjunct2, THEN conjunct2, THEN conjunct2, THEN conjunct2, THEN conjunct2, THEN conjunct2, THEN conjunct2, THEN conjunct2, THEN conjunct2, THEN conjunct1, THEN mp, OF a5s])
  have e6s: "\<exists>ev \<in> set (events_of (fetchBalances ethers_v6 ?s)
        (initial decimals_unreachable)). failed ev"
    using s1[THEN conjunct2, THEN conjunct2, THEN conjunct2, THEN conjunct2, THEN conjunct2, THEN conjunct2, THEN conjunct2, THEN conjunct2, THEN conjunct2, THEN conjunct2, THEN conjunct2, THEN conjunct2, THEN conjunct2, THEN conjunct1] fs rf rp_brk by simp
  have a6s: "?ev \<in> set (events_of (fetchBalances ethers_v6 ?s) (initial decimals_unreachable))"
    by (simp add: run_reading confirmed_transfer broken_refresh)
  have b6s: "error (after (fetchBalances ethers_v6 ?s) (initial decimals_unreachable))
        = ''Failed to fetch balances''"
    by (rule s1[THEN conjunct2, THEN conjunct2, THEN conjunct2, THEN conjunct2, THEN conjunct2, THEN conjunct2, THEN conjunct2, THEN conjunct2, THEN conjunct2, THEN conjunct2, THEN conjunct2, THEN conjunct2, THEN conjunct2, THEN conjunct2, THEN conjunct1, THEN mp, OF conjI[OF a6s fl]])
  have ss: "take 3 (events_of (handleTransfer ethers_v6 ?s) ?rej)
        = [Enter HandleTransfer, SetLoading True, SetError []]"
    by (rule s1[THEN conjunct2, THEN conjunct1, THEN mp, OF gs])
  have a7s: "Call (ContractTransfer ?to 1000000000000000000) (Threw user_rejected)
        \<in> set (events_of (handleTransfer ethers_v6 ?s) ?rej)
     \<and> Enter FetchBalances \<notin> set (events_of (handleTransfer ethers_v6 ?s) ?rej)"
    using s1[THEN conjunct2, THEN conjunct2, THEN conjunct2, THEN conjunct2, THEN conjunct2, THEN conjunct2, THEN conjunct2, THEN conjunct2, THEN conjunct2, THEN conjunct2, THEN conjunct2, THEN conjunct2, THEN conjunct2, THEN conjunct2, THEN conjunct2, THEN conjunct1, THEN mp, OF conjI[OF gs rp_rej]] form by simp
  have b7s: "error (after (handleTransfer ethers_v6 ?s) ?rej) = ''user rejected action''"
    using s1[THEN conjunct2, THEN conjunct2, THEN conjunct2, THEN conjunct2, THEN conjunct2, THEN conjunct2, THEN conjunct2, THEN conjunct2, THEN conjunct2, THEN conjunct2, THEN conjunct2, THEN conjunct2, THEN conjunct2, THEN conjunct2, THEN conjunct2, THEN conjunct2, THEN conjunct1] a7s msg by simp
  have a8s: "Enter FetchBalances \<in> set (events_of (handleTransfer ethers_v6 ?s) ?conf)"
    using s2[THEN conjunct2, THEN conjunct2, THEN conjunct2, THEN conjunct2, THEN conjunct2, THEN conjunct2, THEN conjunct2, THEN conjunct2, THEN conjunct2, THEN conjunct2, THEN conjunct2, THEN conjunct2, THEN conjunct2, THEN conjunct2, THEN conjunct2, THEN conjunct2, THEN conjunct2, THEN conjunct1, THEN mp, OF conjI[OF gs' conjI[OF fs conjI[OF rp_conf rf]]]] by simp
  have a8s': "?ev \<in> set (events_of (handleTransfer ethers_v6 ?s) ?conf)"
    by (simp add: run_reading confirmed_transfer broken_refresh)
  have b8s: "error (after (handleTransfer ethers_v6 ?s) ?conf) = ''Failed to fetch balances''"
    by (rule s2[THEN conjunct2, THEN conjunct2, THEN conjunct2, THEN conjunct2, THEN conjunct2, THEN conjunct2, THEN conjunct2, THEN conjunct2, THEN conjunct2, THEN conjunct2, THEN conjunct2, THEN conjunct2, THEN conjunct2, THEN conjunct2, THEN conjunct2, THEN conjunct2, THEN conjunct2, THEN conjunct2, THEN mp, OF conjI[OF a8s' conjI[OF fl a8s]]])
  have ems: "recipient (initial healthy_reads) = [] \<or> amount (initial healthy_reads) = []"
    by (simp add: initial_def)
  have r1s: "events_of (handleTransfer ethers_v6 ?s) (initial healthy_reads)
       = [Enter HandleTransfer, SetError ''Please enter recipient address and amount'']"
    by (rule s3[THEN conjunct2, THEN conjunct2, THEN conjunct1, THEN mp, OF ems])
  have ng: "recipient (filled healthy_reads) \<noteq> []
     \<and> amount (filled healthy_reads) \<noteq> []
     \<and> \<not> guards_pass ?unready (filled healthy_reads)"
    by (simp add: filled_def initial_def)
  have r2: "events_of (handleTransfer ethers_v6 ?unready) (filled healthy_reads)
       = [Enter HandleTransfer, SetError ''Please connect your wallet'']"
    by (rule w4[THEN conjunct2, THEN conjunct2, THEN conjunct2, THEN conjunct1, THEN mp, OF ng])
  from code code' fl rf rp_rej rp_conf a1 a2 a3 b1 b2 b3 pw fw gw gw' nw nw' a4w b4w a5w b5w e6w a6w
    b6w sw a7w[THEN conjunct1] a7w[THEN conjunct2] b7w a8w a8w' b8w emw r1w ps fs gs gs' ns ns' a4s
    b4s a5s b5s e6s a6s b6s ss a7s[THEN conjunct1] a7s[THEN conjunct2] b7s a8s a8s' b8s r1s ng[THEN
    conjunct1] ng[THEN conjunct2, THEN conjunct1] ng[THEN conjunct2, THEN conjunct2] r2
  show ?thesis
    by (intro conjI)
qed

section \<open>The displayed balances\<close>








end
